theory Spec2Isabelle
  imports Main
begin

section \<open>The subscription worker of the RavenDB Node.js client\<close>

text \<open>
  A shallow embedding of \<^verbatim>\<open>src/Documents/Subscriptions/SubscriptionWorker.ts\<close>.
  Every method of the class that the properties below talk about is a HOL function of the
  same name (without the leading underscore, which HOL identifiers cannot carry). The
  worker object is a record that the functions take and return; a thrown error or a
  rejected promise is the \<open>Inl\<close> side of a sum (or the \<open>Rejected\<close> state of a promise);
  whatever the environment decides (what the server sends, whether a socket write fails,
  when the consumer calls \<^verbatim>\<open>dispose()\<close>, what the clock reads) is an explicit argument.
\<close>

subsection \<open>Errors\<close>

text \<open>
  \<^verbatim>\<open>throwError(name, message)\<close> and \<^verbatim>\<open>getError(name, message)\<close> build an error whose
  \<^verbatim>\<open>name\<close> is the RavenErrorType; the reconnect policy compares \<^verbatim>\<open>ex.name\<close> with string
  literals, so names stay strings. \<^verbatim>\<open>appropriateNode\<close> is the property that
  \<^verbatim>\<open>_assertConnectionState\<close> attaches to a redirect error. The optional inner error
  (third argument of \<^verbatim>\<open>throwError\<close>) is not represented.
\<close>

record error =
  err_name :: string
  err_message :: string
  appropriateNode :: "string option"

definition getError :: "string \<Rightarrow> string \<Rightarrow> error" where
  "getError n m = \<lparr>err_name = n, err_message = m, appropriateNode = None\<rparr>"

text \<open>Reading a property of \<^verbatim>\<open>undefined\<close> or \<^verbatim>\<open>null\<close>, and exhausting the call stack.\<close>

definition typeError :: "string \<Rightarrow> error" where
  "typeError what = getError ''TypeError'' (''Cannot read property '' @ what)"

definition rangeError :: error where
  "rangeError = getError ''RangeError'' ''Maximum call stack size exceeded''"

text \<open>String concatenation with a number, and with a possibly missing string.\<close>

function show_nat :: "nat \<Rightarrow> string" where
  "show_nat n =
     (if n < 10 then [char_of (48 + n)]
      else show_nat (n div 10) @ [char_of (48 + n mod 10)])"
  by pat_completeness auto
termination
  by (relation "measure id") auto

declare show_nat.simps [simp del]

definition show_int :: "int \<Rightarrow> string" where
  "show_int i = (if i < 0 then CHR ''-'' # show_nat (nat (- i)) else show_nat (nat i))"

definition str_or_undefined :: "string option \<Rightarrow> string" where
  "str_or_undefined s = (case s of None \<Rightarrow> ''undefined'' | Some t \<Rightarrow> t)"

subsection \<open>Promises\<close>

text \<open>
  The three states of a JavaScript promise. A settled promise ignores every later
  \<^verbatim>\<open>resolve\<close> and \<^verbatim>\<open>reject\<close>.
\<close>

datatype 'a promise = Pending | Resolved 'a | Rejected error

definition settle :: "'a promise \<Rightarrow> 'a promise \<Rightarrow> 'a promise" where
  "settle p q = (if p = Pending then q else p)"

subsection \<open>Sockets and frames\<close>

text \<open>
  What the client writes, as the objects it serialises (\<^verbatim>\<open>JSON.stringify\<close> of the
  payload). Durations stay in milliseconds: \<^verbatim>\<open>TimeUtil.millisToTimeSpan\<close> is not part
  of the sources.
\<close>

record worker_options =
  subscriptionName :: string
  strategy :: string
  maxDocsPerBatch :: int
  timeToWaitBeforeConnectionRetry :: int
  maxErroneousPeriod :: int
  ignoreSubscriberErrors :: bool
  closeWhenNoDocsLeft :: bool

datatype frame =
    OptionsFrame string int bool string int int bool
  | AcknowledgeFrame string
  | DropFrame string int string

text \<open>
  A \<^verbatim>\<open>net.Socket\<close>: the frames flushed so far, whether \<^verbatim>\<open>end()\<close> was called, and
  its \<^verbatim>\<open>destroyed\<close> and \<^verbatim>\<open>writable\<close> flags. \<^verbatim>\<open>socket.write(data, cb)\<close> calls \<open>cb\<close>
  with an error or with nothing; which of the two is the environment's choice
  (\<open>None\<close>: flushed).
\<close>

record socket =
  sent :: "frame list"
  ended :: bool
  destroyed :: bool
  writable :: bool

definition socket_write :: "socket \<Rightarrow> frame \<Rightarrow> error option \<Rightarrow> socket" where
  "socket_write s f outcome =
     (case outcome of None \<Rightarrow> s\<lparr>sent := sent s @ [f]\<rparr> | Some err \<Rightarrow> s)"

definition socket_end :: "socket \<Rightarrow> socket" where
  "socket_end s = s\<lparr>ended := True, writable := False\<rparr>"

subsection \<open>The event emitter\<close>

text \<open>
  Node's \<^verbatim>\<open>EventEmitter\<close>: per event, the handlers in registration order (a handler is
  identified by a number). \<^verbatim>\<open>removeListener\<close> removes the most recently added instance
  of the handler. \<^verbatim>\<open>emit('error', e)\<close> throws \<open>e\<close> when no handler is registered for
  \<^verbatim>\<open>'error'\<close>; every other emission with no handler does nothing. Handlers are consumer
  code: they are taken not to throw.
\<close>

datatype event = EvAfterAcknowledgment | EvConnectionRetry | EvBatch | EvError | EvEnd

type_synonym handler = nat

type_synonym emitter = "event \<Rightarrow> handler list"

definition emitter_on :: "emitter \<Rightarrow> event \<Rightarrow> handler \<Rightarrow> emitter" where
  "emitter_on em ev h = em(ev := em ev @ [h])"

definition emitter_removeListener :: "emitter \<Rightarrow> event \<Rightarrow> handler \<Rightarrow> emitter" where
  "emitter_removeListener em ev h = em(ev := rev (remove1 h (rev (em ev))))"

definition emitter_removeAllListeners :: "emitter \<Rightarrow> event option \<Rightarrow> emitter" where
  "emitter_removeAllListeners em evo =
     (case evo of None \<Rightarrow> (\<lambda>_. []) | Some ev \<Rightarrow> em(ev := []))"

definition listenerCount :: "emitter \<Rightarrow> event \<Rightarrow> nat" where
  "listenerCount em ev = length (em ev)"

subsection \<open>Server messages\<close>

text \<open>
  A \<^verbatim>\<open>SubscriptionConnectionServerMessage\<close> after key normalisation. \<^verbatim>\<open>type\<close> and
  \<^verbatim>\<open>status\<close> are strings, since the code has a branch for values it does not know;
  the optional properties are options. \<open>msg_data\<close> is the \<^verbatim>\<open>data\<close> object, reduced
  to its \<^verbatim>\<open>redirectedTag\<close>; \<open>msg_payload\<close> stands for the document of a Data frame.
\<close>

record server_message =
  msg_type :: string
  msg_status :: "string option"
  msg_exception :: "string option"
  msg_message :: "string option"
  msg_data :: "string option option"
  msg_payload :: string

text \<open>
  A \<^verbatim>\<open>TcpConnectionHeaderResponse\<close> as \<^verbatim>\<open>_readServerResponseAndGetVersion\<close> reads it.
  \<open>hr_value\<close> is the property \<^verbatim>\<open>value\<close> of the response object: \<open>None\<close> when the
  object has no such property, otherwise the \<^verbatim>\<open>version\<close> property of that value.
\<close>

record header_response =
  hr_status :: string
  hr_version :: int
  hr_message :: "string option"
  hr_value :: "int option option"

subsection \<open>The worker\<close>

record server_node =
  clusterTag :: string
  node_url :: string

text \<open>
  \<^verbatim>\<open>SubscriptionBatch\<close> is not part of the sources: a batch is its \<^verbatim>\<open>items\<close> array,
  and an item stands for the Data frame it was built from.
\<close>

record worker =
  options :: worker_options
  dbName :: string
  processingCancelled :: bool
  disposed :: bool
  tcpClient :: "socket option"
  parserEnded :: "bool option"
  redirectNode :: "server_node option"
  lastConnectionFailure :: "int option"
  supportedFeatures :: "int option"
  subscriptionLocalRequestExecutor :: "string option"
  emitter :: emitter
  subscriptionTask :: bool

text \<open>
  The constructor, for options into which the defaults have already been merged
  (\<^verbatim>\<open>Object.assign\<close>). \<open>parserEnded\<close> is \<open>None\<close> while \<^verbatim>\<open>_parser\<close> is unset.
\<close>

definition newWorker :: "worker_options \<Rightarrow> string \<Rightarrow> error + worker" where
  "newWorker opts db =
     (if subscriptionName opts = []
      then Inl (getError ''InvalidArgumentException''
                  ''SubscriptionConnectionOptions must specify the subscriptionName'')
      else Inr \<lparr>options = opts, dbName = db, processingCancelled = False, disposed = False,
                tcpClient = None, parserEnded = None, redirectNode = None,
                lastConnectionFailure = None, supportedFeatures = None,
                subscriptionLocalRequestExecutor = None, emitter = (\<lambda>_. []),
                subscriptionTask = False\<rparr>)"

definition closeTcpClient :: "worker \<Rightarrow> worker" where
  "closeTcpClient w = w\<lparr>tcpClient := map_option socket_end (tcpClient w)\<rparr>"

definition dispose :: "worker \<Rightarrow> worker" where
  "dispose w =
     (if disposed w then w
      else (closeTcpClient (w\<lparr>disposed := True, processingCancelled := True\<rparr>))
             \<lparr>parserEnded := map_option (\<lambda>_. True) (parserEnded w)\<rparr>)"

definition currentNodeTag :: "worker \<Rightarrow> string option" where
  "currentNodeTag w = map_option clusterTag (redirectNode w)"

subsection \<open>Listener registration\<close>

definition off :: "worker \<Rightarrow> event \<Rightarrow> handler \<Rightarrow> worker" where
  "off w ev h = w\<lparr>emitter := emitter_removeListener (emitter w) ev h\<rparr>"

text \<open>
  \<^verbatim>\<open>removeListener\<close> calls \<^verbatim>\<open>this.removeListener\<close>, that is itself, before it returns.
  The first argument is the number of stack frames left: a call with none left raises
  RangeError, which no frame catches.
\<close>

fun removeListener :: "nat \<Rightarrow> worker \<Rightarrow> event \<Rightarrow> handler \<Rightarrow> error + worker" where
  "removeListener 0 w ev h = Inl rangeError"
| "removeListener (Suc frames) w ev h =
     (case removeListener frames w ev h of
        Inl err \<Rightarrow> Inl err
      | Inr _ \<Rightarrow> Inr w)"

text \<open>
  \<^verbatim>\<open>removeAllListeners(event?)\<close> always passes its parameter on. Called without an
  event it hands the emitter one argument, \<^verbatim>\<open>undefined\<close>, which names no event: the
  emitter clears everything only when it is called with no argument at all, so here
  nothing is removed.
\<close>

definition removeAllListeners :: "worker \<Rightarrow> event option \<Rightarrow> worker" where
  "removeAllListeners w evo =
     (case evo of
        None \<Rightarrow> w
      | Some ev \<Rightarrow> w\<lparr>emitter := emitter_removeAllListeners (emitter w) (Some ev)\<rparr>)"

subsection \<open>Writing frames\<close>

text \<open>
  Each function returns the promise it hands back and the socket after the write. The
  last argument is the outcome of the socket write.
\<close>

definition sendAck :: "string \<Rightarrow> socket \<Rightarrow> error option \<Rightarrow> unit promise \<times> socket" where
  "sendAck lastReceivedChangeVector networkStream outcome =
     ((case outcome of Some err \<Rightarrow> Rejected err | None \<Rightarrow> Resolved ()),
      socket_write networkStream (AcknowledgeFrame lastReceivedChangeVector) outcome)"

definition sendOptions :: "socket \<Rightarrow> worker_options \<Rightarrow> error option \<Rightarrow> unit promise \<times> socket" where
  "sendOptions s opts outcome =
     (Resolved (),
      socket_write s
        (OptionsFrame (subscriptionName opts) (timeToWaitBeforeConnectionRetry opts)
           (ignoreSubscriberErrors opts) (strategy opts) (maxDocsPerBatch opts)
           (maxErroneousPeriod opts) (closeWhenNoDocsLeft opts))
        outcome)"

text \<open>
  \<^verbatim>\<open>_sendDropMessage(reply)\<close> reads \<^verbatim>\<open>reply.version\<close> while it builds the message, and
  \<^verbatim>\<open>this._tcpClient.write\<close> inside the promise: either read fails with a TypeError when
  the object is missing. \<open>subscriptionTcpVersion\<close> is the constant
  \<^verbatim>\<open>SUBSCRIPTION_TCP_VERSION\<close>, which the sources import but do not contain.
\<close>

definition sendDropMessage ::
  "int \<Rightarrow> worker \<Rightarrow> int option option \<Rightarrow> error option \<Rightarrow> error + (unit promise \<times> worker)" where
  "sendDropMessage subscriptionTcpVersion w reply outcome =
     (case reply of
        None \<Rightarrow> Inl (typeError ''version of undefined'')
      | Some theirs \<Rightarrow>
          (case tcpClient w of
             None \<Rightarrow> Inr (Rejected (typeError ''write of undefined''), w)
           | Some s \<Rightarrow>
               Inr (Resolved (),
                    w\<lparr>tcpClient := Some (socket_write s
                        (DropFrame (dbName w) subscriptionTcpVersion
                           (''Couldn't agree on subscription tcp version ours: ''
                              @ show_int subscriptionTcpVersion @ '' theirs: ''
                              @ str_or_undefined (map_option show_int theirs)))
                        outcome)\<rparr>)))"

subsection \<open>Reading from the framed message stream\<close>

text \<open>
  The parser stream is driven by the environment, as a script of what happens next:
  \<^item> \<open>Item x\<close>: the stream is readable and \<^verbatim>\<open>stream.read()\<close> yields an object whose
    \<^verbatim>\<open>value\<close> is \<open>x\<close> (a pending read is first woken by \<^verbatim>\<open>'readable'\<close>);
  \<^item> \<open>Readable\<close>: \<^verbatim>\<open>'readable'\<close> fires with nothing to read;
  \<^item> \<open>StreamError err\<close> and \<open>StreamEnd\<close>: \<^verbatim>\<open>'error'\<close> and \<^verbatim>\<open>'end'\<close> fire;
  \<^item> \<open>DisposeCalled\<close>: the consumer calls \<^verbatim>\<open>dispose()\<close> while the worker is
    suspended.
  A script that runs out leaves the read pending. \<^verbatim>\<open>_readNextObject\<close> checks the two
  flags, reads, and otherwise waits for one of the three events (\<open>awaitStream\<close>, the
  promise with its \<^verbatim>\<open>.then(() => this._readNextObject())\<close>). A resolved read carries
  \<open>None\<close> for \<^verbatim>\<open>null\<close>.
\<close>

datatype 'a stream_event = Item 'a | Readable | StreamError error | StreamEnd | DisposeCalled

fun is_Item :: "'a stream_event list \<Rightarrow> bool" where
  "is_Item (Item x # rest) = True"
| "is_Item es = False"

function readNextObject ::
    "worker \<Rightarrow> 'a stream_event list \<Rightarrow> 'a option promise \<times> worker \<times> 'a stream_event list"
  and awaitStream ::
    "worker \<Rightarrow> 'a stream_event list \<Rightarrow> 'a option promise \<times> worker \<times> 'a stream_event list"
where
  "readNextObject w es =
     (if processingCancelled w then (Resolved None, w, es)
      else if disposed w then (Resolved None, w, es)
      else (case es of
              Item x # rest \<Rightarrow> (Resolved (Some x), w, rest)
            | _ \<Rightarrow> awaitStream w es))"
| "awaitStream w [] = (Pending, w, [])"
| "awaitStream w (Item x # rest) = readNextObject w (Item x # rest)"
| "awaitStream w (Readable # rest) = readNextObject w rest"
| "awaitStream w (StreamError err # rest) = (Rejected err, w, rest)"
| "awaitStream w (StreamEnd # rest) =
     (Rejected (getError ''SubscriptionException''
                  ''Subscription stream has ended unexpectedly.''), w, rest)"
| "awaitStream w (DisposeCalled # rest) = awaitStream (dispose w) rest"
  by pat_completeness auto
termination
  by (relation "measure (\<lambda>c. case c of
          Inl (w, es) \<Rightarrow> 2 * length es + (if is_Item es then 0 else 2)
        | Inr (w, es) \<Rightarrow> 2 * length es + 1)")
     auto

text \<open>
  Where the worker is suspended between two reads (an \<^verbatim>\<open>await\<close> that has resolved),
  the consumer may call \<^verbatim>\<open>dispose()\<close> before the worker runs on.
\<close>

fun afterAwait :: "worker \<Rightarrow> 'a stream_event list \<Rightarrow> worker \<times> 'a stream_event list" where
  "afterAwait w (DisposeCalled # rest) = afterAwait (dispose w) rest"
| "afterAwait w es = (w, es)"

subsection \<open>Protocol negotiation\<close>

text \<open>
  \<^verbatim>\<open>_readServerResponseAndGetVersion\<close>. \<open>outOfRangeStatus\<close> and
  \<open>subscriptionTcpVersion\<close> are the imported constants \<^verbatim>\<open>OUT_OF_RANGE_STATUS\<close> and
  \<^verbatim>\<open>SUBSCRIPTION_TCP_VERSION\<close>; \<open>outcome\<close> is the outcome of the drop frame's socket
  write. The drop message is built from \<^verbatim>\<open>x.value\<close>.
\<close>

definition readServerResponseAndGetVersion ::
  "int \<Rightarrow> int \<Rightarrow> worker \<Rightarrow> header_response stream_event list \<Rightarrow> error option
     \<Rightarrow> int promise \<times> worker \<times> header_response stream_event list" where
  "readServerResponseAndGetVersion outOfRangeStatus subscriptionTcpVersion w es outcome =
     (case readNextObject w es of
        (Pending, w', es') \<Rightarrow> (Pending, w', es')
      | (Rejected err, w', es') \<Rightarrow> (Rejected err, w', es')
      | (Resolved None, w', es') \<Rightarrow> (Rejected (typeError ''status of null''), w', es')
      | (Resolved (Some x), w', es') \<Rightarrow>
          (if hr_status x = ''Ok'' then (Resolved (hr_version x), w', es')
           else if hr_status x = ''AuthorizationFailed'' then
             (Rejected (getError ''AuthorizationException''
                (''Cannot access database '' @ dbName w' @ '' because ''
                   @ str_or_undefined (hr_message x))), w', es')
           else if hr_status x = ''TcpVersionMismatch'' then
             (if hr_version x \<noteq> outOfRangeStatus then (Resolved (hr_version x), w', es')
              else (case sendDropMessage subscriptionTcpVersion w' (hr_value x) outcome of
                      Inl err \<Rightarrow> (Rejected err, w', es')
                    | Inr (Pending, w'') \<Rightarrow> (Pending, w'', es')
                    | Inr (Rejected err, w'') \<Rightarrow> (Rejected err, w'', es')
                    | Inr (Resolved _, w'') \<Rightarrow>
                        (Rejected (getError ''InvalidOperationException''
                           (''Can't connect to database '' @ dbName w'' @ '' because: ''
                              @ str_or_undefined (hr_message x))), w'', es')))
           else (Resolved (hr_version x), w', es')))"

subsection \<open>Connection status\<close>

text \<open>\<^verbatim>\<open>String.prototype.includes\<close>.\<close>

fun js_includes :: "string \<Rightarrow> string \<Rightarrow> bool" where
  "js_includes [] sub = (sub = [])"
| "js_includes (c # cs) sub = (take (length sub) (c # cs) = sub \<or> js_includes cs sub)"

definition withAppropriateNode :: "error \<Rightarrow> string option \<Rightarrow> error" where
  "withAppropriateNode err tag = err\<lparr>appropriateNode := tag\<rparr>"

text \<open>
  \<^verbatim>\<open>_assertConnectionState\<close>: \<open>Inr ()\<close> when it returns, which it does for an Accepted
  connection status only. Every case of the switch but the first throws, so the
  fall-through of the source is never taken.
\<close>

definition assertConnectionState :: "worker \<Rightarrow> server_message \<Rightarrow> error + unit" where
  "assertConnectionState w connectionStatus =
     (let sid = ''Subscription with id '' @ subscriptionName (options w) in
      if msg_type connectionStatus = ''Error'' \<and> msg_exception connectionStatus = None
        then Inl (typeError ''includes of undefined'')
      else if msg_type connectionStatus = ''Error''
              \<and> js_includes (str_or_undefined (msg_exception connectionStatus))
                   ''DatabaseDoesNotExistException''
        then Inl (getError ''DatabaseDoesNotExistException''
                    (dbName w @ '' does not exists. ''
                       @ str_or_undefined (msg_message connectionStatus)))
      else if msg_type connectionStatus \<noteq> ''ConnectionStatus''
        then Inl (getError ''InvalidOperationException''
                    (''Server returned illegal type message when expecting connection status, was: ''
                       @ msg_type connectionStatus))
      else if msg_status connectionStatus = Some ''Accepted'' then Inr ()
      else if msg_status connectionStatus = Some ''InUse''
        then Inl (getError ''SubscriptionInUseException''
                    (sid @ '' cannot be opened, because it's in use and the connection strategy is ''
                       @ strategy (options w)))
      else if msg_status connectionStatus = Some ''Closed''
        then Inl (getError ''SubscriptionClosedException''
                    (sid @ '' was closed. '' @ str_or_undefined (msg_exception connectionStatus)))
      else if msg_status connectionStatus = Some ''Invalid''
        then Inl (getError ''SubscriptionInvalidStateException''
                    (sid @ '' cannot be opened, because it is in invalid state. ''
                       @ str_or_undefined (msg_exception connectionStatus)))
      else if msg_status connectionStatus = Some ''NotFound''
        then Inl (getError ''SubscriptionDoesNotExistException''
                    (sid @ '' cannot be opened, because it does not exist. ''
                       @ str_or_undefined (msg_exception connectionStatus)))
      else if msg_status connectionStatus = Some ''Redirect''
        then (case msg_data connectionStatus of
                None \<Rightarrow> Inl (typeError ''redirectedTag of undefined'')
              | Some appropriate \<Rightarrow>
                  Inl (withAppropriateNode
                         (getError ''SubscriptionDoesNotBelongToNodeException''
                            (sid @ '' cannot be processed by current node, it will be redirected to ''
                               @ str_or_undefined appropriate))
                         appropriate))
      else if msg_status connectionStatus = Some ''ConcurrencyReconnect''
        then Inl (getError ''SubscriptionChangeVectorUpdateConcurrencyException''
                    (case msg_message connectionStatus of None \<Rightarrow> [] | Some m \<Rightarrow> m))
      else Inl (getError ''InvalidOperationException''
                  (''Subscription '' @ subscriptionName (options w)
                     @ '' could not be opened, reason: ''
                     @ str_or_undefined (msg_status connectionStatus))))"



subsection \<open>What the worker does to the outside\<close>

text \<open>
  The observable actions of the worker, in the order it performs them: a call of
  \<^verbatim>\<open>this._emitter.emit(event, arg)\<close> and a \<^verbatim>\<open>delay(ms)\<close>. \<open>emit\<close> is the emitter's
  \<^verbatim>\<open>emit\<close>: it throws the error it is given when the event is \<^verbatim>\<open>'error'\<close> and nobody
  listens.
\<close>

datatype payload = BatchArg "server_message list" | ErrorArg error | NoArg

datatype action = Emit event payload | Delay int

definition emit :: "emitter \<Rightarrow> event \<Rightarrow> payload \<Rightarrow> error + action" where
  "emit em ev arg =
     (if ev = EvError \<and> em EvError = []
      then Inl (case arg of ErrorArg err \<Rightarrow> err
                | _ \<Rightarrow> getError ''ERR_UNHANDLED_ERROR'' ''Unhandled error.'')
      else Inr (Emit ev arg))"

subsection \<open>The batch pump\<close>






subsection \<open>Dispatching a batch\<close>

text \<open>
  \<^verbatim>\<open>_emitBatchAndWaitForProcessing\<close> creates a promise, captures
  \<^verbatim>\<open>listenerCount("batch")\<close> and emits the batch with a completion callback. The
  latch is the promise with the captured counter; \<open>completionCallback\<close> is the
  callback, called with \<open>Some err\<close> for a truthy argument; the listeners' calls of the
  callback, in the order they are made, are the environment's.
\<close>

record latch =
  pendingListeners :: int
  pipelinePromise :: "unit promise"

definition completionCallback :: "latch \<Rightarrow> error option \<Rightarrow> latch" where
  "completionCallback l arg =
     (case arg of
        Some err \<Rightarrow> l\<lparr>pipelinePromise := settle (pipelinePromise l) (Rejected err)\<rparr>
      | None \<Rightarrow>
          (let n = pendingListeners l - 1 in
           if n = 0
           then l\<lparr>pendingListeners := n,
                  pipelinePromise := settle (pipelinePromise l) (Resolved ())\<rparr>
           else l\<lparr>pendingListeners := n\<rparr>))"

definition emitBatchAndWaitForProcessing :: "worker \<Rightarrow> error option list \<Rightarrow> unit promise" where
  "emitBatchAndWaitForProcessing w calls =
     pipelinePromise
       (foldl completionCallback
          \<lparr>pendingListeners = int (listenerCount (emitter w) EvBatch),
           pipelinePromise = Pending\<rparr>
          calls)"

subsection \<open>Connecting\<close>

text \<open>
  \<^verbatim>\<open>_ensureParser\<close> builds the parser pipeline on the new socket and pauses it. The
  callback it passes to \<^verbatim>\<open>stream.pipeline\<close> is \<open>pipelineCallback\<close>: called with the
  pipeline's error, if any, it emits \<^verbatim>\<open>'error'\<close> unless \<^verbatim>\<open>this._tcpClient\<close> is destroyed.
\<close>

definition ensureParser :: "worker \<Rightarrow> worker" where
  "ensureParser w = w\<lparr>parserEnded := Some False\<rparr>"

definition pipelineCallback :: "worker \<Rightarrow> error option \<Rightarrow> error + action list" where
  "pipelineCallback w err =
     (case err of
        None \<Rightarrow> Inr []
      | Some e \<Rightarrow>
          (case tcpClient w of
             None \<Rightarrow> Inl (typeError ''destroyed of undefined'')
           | Some s \<Rightarrow>
               if \<not> destroyed s
               then (case emit (emitter w) EvError (ErrorArg e) of
                       Inl thrown \<Rightarrow> Inl thrown
                     | Inr a \<Rightarrow> Inr [a])
               else Inr []))"

text \<open>
  What the environment decides during one \<^verbatim>\<open>_connectToServer\<close>:
  \<^item> \<open>ce_disposeCalled\<close>: the consumer calls \<^verbatim>\<open>dispose()\<close> while the request for the
    TCP info is in flight;
  \<^item> \<open>ce_tcpInfo\<close>: the outcome of \<^verbatim>\<open>requestExecutor.execute(command, ...)\<close>, resolved
    with \<^verbatim>\<open>command.requestedNode\<close>;
  \<^item> \<open>ce_connect\<close>: the outcome of \<^verbatim>\<open>TcpUtils.connect\<close>;
  \<^item> \<open>ce_negotiate\<close>: the outcome of \<^verbatim>\<open>TcpNegotiation.negotiateProtocolVersion\<close>
    (not part of the sources), resolved with the protocol version of the supported
    features;
  \<^item> \<open>ce_optionsWrite\<close>: the outcome of the socket write of the options.
\<close>

record connect_env =
  ce_disposeCalled :: bool
  ce_tcpInfo :: "server_node promise"
  ce_connect :: "unit promise"
  ce_negotiate :: "int promise"
  ce_optionsWrite :: "error option"

definition newSocket :: socket where
  "newSocket = \<lparr>sent = [], ended = False, destroyed = False, writable = True\<rparr>"

definition connectToServer :: "worker \<Rightarrow> connect_env \<Rightarrow> unit promise \<times> worker" where
  "connectToServer w0 env =
     (let w = (if ce_disposeCalled env then dispose w0 else w0) in
      case ce_tcpInfo env of
        Pending \<Rightarrow> (Pending, w)
      | Rejected e \<Rightarrow>
          (Rejected e, if redirectNode w \<noteq> None then w\<lparr>redirectNode := None\<rparr> else w)
      | Resolved requestedNode \<Rightarrow>
          (case ce_connect env of
             Pending \<Rightarrow> (Pending, w)
           | Rejected e \<Rightarrow> (Rejected e, w)
           | Resolved _ \<Rightarrow>
               (let w1 = ensureParser (w\<lparr>tcpClient := Some newSocket\<rparr>) in
                case ce_negotiate env of
                  Pending \<Rightarrow> (Pending, w1)
                | Rejected e \<Rightarrow> (Rejected e, w1)
                | Resolved protocolVersion \<Rightarrow>
                    (let w2 = w1\<lparr>supportedFeatures := Some protocolVersion\<rparr> in
                     if protocolVersion \<le> 0
                     then (Rejected (getError ''InvalidOperationException''
                             (subscriptionName (options w2)
                                @ '' : TCP negotiation resulted with an invalid protocol version: ''
                                @ show_int protocolVersion)), w2)
                     else (case sendOptions newSocket (options w2) (ce_optionsWrite env) of
                             (_, s) \<Rightarrow>
                               (Resolved (),
                                w2\<lparr>tcpClient := Some s,
                                   subscriptionLocalRequestExecutor :=
                                     Some (node_url requestedNode)\<rparr>))))))"

subsection \<open>One subscription iteration\<close>

text \<open>
  What the environment decides during one \<^verbatim>\<open>_processSubscription\<close>: the connection,
  the script of the parser stream while the connection status is read, and the course of
  the dispatch loop (\<^verbatim>\<open>while (!this._processingCancelled)\<close>, which overlaps reading a
  batch with the subscriber's processing of the previous one). Of that loop the model
  keeps what the iteration's caller can see: whether the consumer called \<^verbatim>\<open>dispose()\<close>
  while it ran (\<open>pe_loopDisposed\<close>) and the error it threw, if any (\<open>pe_loopError\<close>);
  a loop that throws nothing ends when processing is cancelled and runs on otherwise.
\<close>

record process_env =
  pe_connect :: connect_env
  pe_stream :: "server_message stream_event list"
  pe_loopDisposed :: bool
  pe_loopError :: "error option"

definition operationCancelled :: error where
  "operationCancelled = getError ''OperationCancelledException'' []"

text \<open>The \<^verbatim>\<open>try\<close> block that follows the connection, up to its \<^verbatim>\<open>finally\<close>.\<close>

definition processConnected :: "worker \<Rightarrow> process_env \<Rightarrow> unit promise \<times> worker" where
  "processConnected w env =
     (if processingCancelled w then (Rejected operationCancelled, w)
      else (case readNextObject w (pe_stream env) of
          (Pending, w1, es1) \<Rightarrow> (Pending, w1)
        | (Rejected err, w1, es1) \<Rightarrow> (Rejected err, w1)
        | (Resolved connectionStatus, w1, es1) \<Rightarrow>
            (case afterAwait w1 es1 of
               (w2, es2) \<Rightarrow>
                 if processingCancelled w2 then (Resolved (), w2)
                 else (case connectionStatus of
                     None \<Rightarrow> (Rejected (typeError ''type of null''), w2)
                   | Some cs \<Rightarrow>
                       (case (if msg_type cs \<noteq> ''ConnectionStatus''
                                  \<or> msg_status cs \<noteq> Some ''Accepted''
                              then assertConnectionState w2 cs else Inr ()) of
                          Inl err \<Rightarrow> (Rejected err, w2)
                        | Inr _ \<Rightarrow>
                            (let w3 = w2\<lparr>lastConnectionFailure := None\<rparr> in
                             if processingCancelled w3 then (Resolved (), w3)
                             else (let w4 = (if pe_loopDisposed env then dispose w3 else w3) in
                                   case pe_loopError env of
                                     Some err \<Rightarrow> (Rejected err, w4)
                                   | None \<Rightarrow>
                                       if processingCancelled w4 then (Resolved (), w4)
                                       else (Pending, w4))))))))"

text \<open>
  \<^verbatim>\<open>_processSubscription\<close>: the \<^verbatim>\<open>finally\<close> ends the socket and the parser; the outer
  \<^verbatim>\<open>catch\<close> (\<open>outerCatch\<close>) re-throws unless the worker is disposed.
\<close>

definition outerCatch :: "unit promise \<times> worker \<Rightarrow> unit promise \<times> worker" where
  "outerCatch r =
     (case r of
        (Rejected err, w) \<Rightarrow>
          if \<not> disposed w then (Rejected err, w) else (Resolved (), w)
      | other \<Rightarrow> other)"

definition processSubscription :: "worker \<Rightarrow> process_env \<Rightarrow> unit promise \<times> worker" where
  "processSubscription w env =
     (if processingCancelled w then outerCatch (Rejected operationCancelled, w)
      else (case connectToServer w (pe_connect env) of
          (Pending, w1) \<Rightarrow> (Pending, w1)
        | (Rejected err, w1) \<Rightarrow> outerCatch (Rejected err, w1)
        | (Resolved _, w1) \<Rightarrow>
            (case processConnected w1 env of
               (Pending, w2) \<Rightarrow> (Pending, w2)
             | (r, w2) \<Rightarrow>
                 outerCatch (r, (closeTcpClient w2)\<lparr>parserEnded := Some True\<rparr>))))"

subsection \<open>The reconnect controller\<close>

text \<open>\<open>now\<close> is what \<^verbatim>\<open>new Date()\<close> reads, in milliseconds.\<close>

definition assertLastConnectionFailure :: "int \<Rightarrow> worker \<Rightarrow> error + worker" where
  "assertLastConnectionFailure now w =
     (case lastConnectionFailure w of
        None \<Rightarrow> Inr (w\<lparr>lastConnectionFailure := Some now\<rparr>)
      | Some since \<Rightarrow>
          if now - since > maxErroneousPeriod (options w)
          then Inl (getError ''SubscriptionInvalidStateException''
                      (''Subscription connection was in invalid state for more than ''
                         @ show_int (maxErroneousPeriod (options w))
                         @ '' and therefore will be terminated.''))
          else Inr w)"

definition fatalErrorNames :: "string list" where
  "fatalErrorNames =
     [''SubscriptionInUseException'', ''SubscriptionDoesNotExistException'',
      ''SubscriptionClosedException'', ''SubscriptionInvalidStateException'',
      ''DatabaseDoesNotExistException'', ''AuthorizationException'',
      ''AllTopologyNodesDownException'', ''SubscriberErrorException'']"

text \<open>
  \<^verbatim>\<open>_shouldTryToReconnect(ex)\<close>: what it returns or throws, and the worker after it (what
  it assigned before throwing stays assigned). \<open>topologyNodes\<close> is what
  \<^verbatim>\<open>requestExecutor.getTopologyNodes()\<close> returns. An empty \<^verbatim>\<open>appropriateNode\<close> is falsy.
\<close>

definition shouldTryToReconnect ::
  "server_node list \<Rightarrow> int \<Rightarrow> worker \<Rightarrow> error \<Rightarrow> (error + bool) \<times> worker" where
  "shouldTryToReconnect topologyNodes now w ex =
     (if err_name ex = ''SubscriptionDoesNotBelongToNodeException'' then
        (case assertLastConnectionFailure now w of
           Inl err \<Rightarrow> (Inl err, w)
         | Inr w1 \<Rightarrow>
             (case appropriateNode ex of
                None \<Rightarrow> (Inr True, w1)
              | Some appropriate \<Rightarrow>
                  if appropriate = [] then (Inr True, w1)
                  else (case find (\<lambda>x. clusterTag x = appropriate) topologyNodes of
                          None \<Rightarrow>
                            (Inl (getError ''InvalidOperationException''
                                    (''Could not redirect to '' @ appropriate
                                       @ '', because it was not found in local topology, even after retrying'')),
                             w1)
                        | Some nodeToRedirectTo \<Rightarrow>
                            (Inr True, w1\<lparr>redirectNode := Some nodeToRedirectTo\<rparr>))))
      else if err_name ex = ''SubscriptionChangeVectorUpdateConcurrencyException''
        then (Inr True, w)
      else if err_name ex \<in> set fatalErrorNames
        then (Inr False, w\<lparr>processingCancelled := True\<rparr>)
      else (case assertLastConnectionFailure now w of
              Inl err \<Rightarrow> (Inl err, w)
            | Inr w1 \<Rightarrow> (Inr True, w1)))"

text \<open>
  One turn of the loop of \<^verbatim>\<open>_runSubscriptionAsync\<close> is driven by: the iteration's
  environment, the topology and the clock at the time the error is classified, and
  whether the consumer calls \<^verbatim>\<open>dispose()\<close> during the delay before the retry. When the
  script of turns runs out the task is still running.
\<close>

record turn =
  tn_process :: process_env
  tn_topology :: "server_node list"
  tn_now :: int
  tn_disposeDuringDelay :: bool

fun runSubscriptionAsync ::
  "worker \<Rightarrow> turn list \<Rightarrow> action list \<Rightarrow> unit promise \<times> action list \<times> worker" where
  "runSubscriptionAsync w [] acts =
     (if processingCancelled w then (Resolved (), acts, w) else (Pending, acts, w))"
| "runSubscriptionAsync w (t # ts) acts =
     (if processingCancelled w then (Resolved (), acts, w)
      else (case processSubscription (closeTcpClient w) (tn_process t) of
          (Pending, w1) \<Rightarrow> (Pending, acts, w1)
        | (Resolved _, w1) \<Rightarrow> runSubscriptionAsync w1 ts acts
        | (Rejected error, w1) \<Rightarrow>
            if processingCancelled w1
            then (if \<not> disposed w1 then (Rejected error, acts, w1)
                  else (Resolved (), acts, w1))
            else (case shouldTryToReconnect (tn_topology t) (tn_now t) w1 error of
                (Inl thrown, w2) \<Rightarrow> (Rejected thrown, acts, w2)
              | (Inr False, w2) \<Rightarrow> (Rejected error, acts, w2)
              | (Inr True, w2) \<Rightarrow>
                  (let w3 = (if tn_disposeDuringDelay t then dispose w2 else w2) in
                   case emit (emitter w3) EvConnectionRetry (ErrorArg error) of
                     Inl thrown \<Rightarrow> (Rejected thrown, acts, w3)
                   | Inr a \<Rightarrow>
                       runSubscriptionAsync w3 ts
                         (acts @ [Delay (timeToWaitBeforeConnectionRetry (options w3)), a])))))"

subsection \<open>Registering a listener and starting the task\<close>

definition on :: "worker \<Rightarrow> event \<Rightarrow> handler \<Rightarrow> worker" where
  "on w ev h =
     (let w1 = w\<lparr>emitter := emitter_on (emitter w) ev h\<rparr> in
      if ev = EvBatch \<and> \<not> subscriptionTask w1 then w1\<lparr>subscriptionTask := True\<rparr> else w1)"

text \<open>
  The promise that \<^verbatim>\<open>on\<close> stores in \<^verbatim>\<open>_subscriptionTask\<close>:
  \<^verbatim>\<open>_runSubscriptionAsync().catch(err => emit("error", err)).then(() => emit("end"))\<close>.
  When the \<^verbatim>\<open>catch\<close> handler itself throws, the \<^verbatim>\<open>then\<close> handler is skipped.
\<close>

definition subscriptionTaskRun ::
  "worker \<Rightarrow> turn list \<Rightarrow> unit promise \<times> action list \<times> worker" where
  "subscriptionTaskRun w ts =
     (case runSubscriptionAsync w ts [] of
        (Pending, acts, w1) \<Rightarrow> (Pending, acts, w1)
      | (Resolved _, acts, w1) \<Rightarrow>
          (case emit (emitter w1) EvEnd NoArg of
             Inl thrown \<Rightarrow> (Rejected thrown, acts, w1)
           | Inr b \<Rightarrow> (Resolved (), acts @ [b], w1))
      | (Rejected err, acts, w1) \<Rightarrow>
          (case emit (emitter w1) EvError (ErrorArg err) of
             Inl thrown \<Rightarrow> (Rejected thrown, acts, w1)
           | Inr a \<Rightarrow>
               (case emit (emitter w1) EvEnd NoArg of
                  Inl thrown \<Rightarrow> (Rejected thrown, acts @ [a], w1)
                | Inr b \<Rightarrow> (Resolved (), acts @ [a, b], w1))))"

subsection \<open>Vocabulary of the properties\<close>





text \<open>
  The frames that a script of the parser stream delivers, in order; a script in which
  nothing but deliveries and bare \<^verbatim>\<open>'readable'\<close> events happen (no \<^verbatim>\<open>dispose()\<close>, no
  stream error, no end of stream); and the result of the batch pump without the part of
  the script it has left unread.
\<close>

fun deliveredFrames :: "'a stream_event list \<Rightarrow> 'a list" where
  "deliveredFrames [] = []"
| "deliveredFrames (Item x # es) = x # deliveredFrames es"
| "deliveredFrames (e # es) = deliveredFrames es"



text \<open>
  The erroneous-window guard has run out: a failure is on record and more than
  \<^verbatim>\<open>maxErroneousPeriod\<close> has passed since.
\<close>

definition erroneousPeriodExceeded :: "int \<Rightarrow> worker \<Rightarrow> bool" where
  "erroneousPeriodExceeded now w =
     (case lastConnectionFailure w of
        None \<Rightarrow> False
      | Some since \<Rightarrow> now - since > maxErroneousPeriod (options w))"

text \<open>The node that a redirect error names is not in the local topology.\<close>

definition redirectTargetUnknown :: "server_node list \<Rightarrow> error \<Rightarrow> bool" where
  "redirectTargetUnknown topologyNodes ex =
     (case appropriateNode ex of
        None \<Rightarrow> False
      | Some tag \<Rightarrow> tag \<noteq> [] \<and> find (\<lambda>x. clusterTag x = tag) topologyNodes = None)"

text \<open>
  Processing is cancelled only by \<^verbatim>\<open>dispose()\<close>: true of a new worker, and kept by
  everything but the fatal classification, after which the loop ends.
\<close>

definition cancelledByDispose :: "worker \<Rightarrow> bool" where
  "cancelledByDispose w \<longleftrightarrow> (processingCancelled w \<longrightarrow> disposed w)"

text \<open>
  The errors with which the loop of \<^verbatim>\<open>_runSubscriptionAsync\<close> ends: those of a fatal
  kind (the escalation of the erroneous-window guard is one) and the failed redirect.
\<close>

definition endsTheTask :: "error \<Rightarrow> bool" where
  "endsTheTask err \<longleftrightarrow>
     err_name err \<in> set fatalErrorNames
     \<or> (\<exists>tag. err = getError ''InvalidOperationException''
                  (''Could not redirect to '' @ tag
                     @ '', because it was not found in local topology, even after retrying''))"

text \<open>The actions of a retry: the delay and the \<^verbatim>\<open>connectionRetry\<close> emission.\<close>

definition retryAction :: "action \<Rightarrow> bool" where
  "retryAction a = (case a of Delay ms \<Rightarrow> True | Emit ev arg \<Rightarrow> ev = EvConnectionRetry)"

subsection \<open>Concrete values\<close>

definition exampleOptions :: worker_options where
  "exampleOptions =
     \<lparr>subscriptionName = ''orders'', strategy = ''OpenIfFree'', maxDocsPerBatch = 4096,
      timeToWaitBeforeConnectionRetry = 5000, maxErroneousPeriod = 300000,
      ignoreSubscriberErrors = False, closeWhenNoDocsLeft = False\<rparr>"

definition exampleWorker :: worker where
  "exampleWorker =
     \<lparr>options = exampleOptions, dbName = ''shop'', processingCancelled = False,
      disposed = False, tcpClient = None, parserEnded = None, redirectNode = None,
      lastConnectionFailure = None, supportedFeatures = None,
      subscriptionLocalRequestExecutor = None, emitter = (\<lambda>_. []),
      subscriptionTask = False\<rparr>"

definition frameOfType :: "string \<Rightarrow> server_message" where
  "frameOfType t =
     \<lparr>msg_type = t, msg_status = None, msg_exception = None, msg_message = None,
      msg_data = None, msg_payload = []\<rparr>"

definition dataFrame :: "string \<Rightarrow> server_message" where
  "dataFrame doc = (frameOfType ''Data'')\<lparr>msg_payload := doc\<rparr>"

definition statusFrame :: "string \<Rightarrow> server_message" where
  "statusFrame st = (frameOfType ''ConnectionStatus'')\<lparr>msg_status := Some st\<rparr>"

text \<open>The example worker once \<^verbatim>\<open>TcpUtils.connect\<close> and \<^verbatim>\<open>_ensureParser\<close> have run.\<close>

definition connectedWorker :: worker where
  "connectedWorker = ensureParser (exampleWorker\<lparr>tcpClient := Some newSocket\<rparr>)"

definition nodeA :: server_node where
  "nodeA = \<lparr>clusterTag = ''A'', node_url = ''tcp://a:38888''\<rparr>"

definition nodeB :: server_node where
  "nodeB = \<lparr>clusterTag = ''B'', node_url = ''tcp://b:38888''\<rparr>"

definition failingConnect :: "error \<Rightarrow> connect_env" where
  "failingConnect err =
     \<lparr>ce_disposeCalled = False, ce_tcpInfo = Rejected err, ce_connect = Resolved (),
      ce_negotiate = Resolved 53, ce_optionsWrite = None\<rparr>"

definition goodConnect :: "server_node \<Rightarrow> connect_env" where
  "goodConnect node =
     \<lparr>ce_disposeCalled = False, ce_tcpInfo = Resolved node, ce_connect = Resolved (),
      ce_negotiate = Resolved 53, ce_optionsWrite = None\<rparr>"

definition failingTurn :: "error \<Rightarrow> server_node list \<Rightarrow> int \<Rightarrow> turn" where
  "failingTurn err topologyNodes now =
     \<lparr>tn_process = \<lparr>pe_connect = failingConnect err, pe_stream = [],
                      pe_loopDisposed = False, pe_loopError = None\<rparr>,
      tn_topology = topologyNodes, tn_now = now, tn_disposeDuringDelay = False\<rparr>"

definition refused :: error where
  "refused = getError ''ConnectionException'' ''connect ECONNREFUSED''"

definition unauthorized :: error where
  "unauthorized = getError ''AuthorizationException'' ''Forbidden''"

definition concurrency :: error where
  "concurrency = getError ''SubscriptionChangeVectorUpdateConcurrencyException'' ''retry''"

definition redirectTo :: "string \<Rightarrow> error" where
  "redirectTo tag =
     withAppropriateNode (getError ''SubscriptionDoesNotBelongToNodeException'' ''moved'') (Some tag)"

definition afterFailedConnect :: worker where
  "afterFailedConnect = (closeTcpClient exampleWorker)\<lparr>redirectNode := None\<rparr>"

definition staleWorker :: worker where
  "staleWorker = exampleWorker\<lparr>lastConnectionFailure := Some 0\<rparr>"

definition acceptedStream :: process_env where
  "acceptedStream =
     \<lparr>pe_connect = goodConnect nodeA, pe_stream = [Item (statusFrame ''Accepted'')],
      pe_loopDisposed = False, pe_loopError = Some refused\<rparr>"

definition listeningWorker :: worker where
  "listeningWorker = on (on connectedWorker EvError 7) EvBatch 8"

section \<open>Properties\<close>

lemma newWorker_example: "newWorker exampleOptions ''shop'' = Inr exampleWorker"
  by (simp add: newWorker_def exampleOptions_def exampleWorker_def)

subsection \<open>The batch pump\<close>










lemma deliveredFrames_Items: "deliveredFrames (map Item ms) = ms"
  by (induction ms) simp_all








subsection \<open>Dispatching a batch\<close>

lemma completionCallback_settled:
  "pipelinePromise l \<noteq> Pending \<Longrightarrow>
   pipelinePromise (completionCallback l c) = pipelinePromise l"
  by (auto simp: completionCallback_def settle_def Let_def split: option.splits)

lemma settled_stays:
  "pipelinePromise l \<noteq> Pending \<Longrightarrow>
   pipelinePromise (foldl completionCallback l cs) = pipelinePromise l"
  by (induction cs arbitrary: l) (simp_all add: completionCallback_settled)

lemma resolved_iff:
  "pipelinePromise l = Pending \<Longrightarrow>
   pipelinePromise (foldl completionCallback l cs) = Resolved () \<longleftrightarrow>
     0 < pendingListeners l \<and> nat (pendingListeners l) \<le> length cs
     \<and> list_all (\<lambda>c. c = None) (take (nat (pendingListeners l)) cs)"
proof (induction cs arbitrary: l)
  case Nil
  then show ?case by simp
next
  case (Cons c cs)
  show ?case
  proof (cases c)
    case (Some err)
    have "pipelinePromise (completionCallback l c) = Rejected err"
      using Cons.prems Some by (simp add: completionCallback_def settle_def)
    then have "pipelinePromise (foldl completionCallback l (c # cs)) = Rejected err"
      by (simp add: settled_stays)
    moreover have "0 < pendingListeners l \<Longrightarrow>
        \<not> list_all (\<lambda>c. c = None) (take (nat (pendingListeners l)) (c # cs))"
      using Some by (cases "nat (pendingListeners l)") auto
    ultimately show ?thesis by auto
  next
    case None
    show ?thesis
    proof (cases "pendingListeners l = 1")
      case True
      have "pipelinePromise (completionCallback l c) = Resolved ()"
        using Cons.prems None True by (simp add: completionCallback_def settle_def)
      then have "pipelinePromise (foldl completionCallback l (c # cs)) = Resolved ()"
        by (simp add: settled_stays)
      then show ?thesis using True None by simp
    next
      case False
      let ?l = "completionCallback l c"
      have l': "pipelinePromise ?l = Pending" "pendingListeners ?l = pendingListeners l - 1"
        using Cons.prems None False by (simp_all add: completionCallback_def Let_def)
      have "nat (pendingListeners l) = Suc (nat (pendingListeners l - 1))"
        if "0 < pendingListeners l" using that by simp
      then show ?thesis
        using Cons.IH [OF l'(1)] l'(2) None False by (cases "0 < pendingListeners l") auto
    qed
  qed
qed

lemma rejected_first_error:
  "pipelinePromise l = Pending \<Longrightarrow> int (length cs) \<le> pendingListeners l \<Longrightarrow>
   find (\<lambda>c. c \<noteq> None) cs = Some (Some err) \<Longrightarrow>
   pipelinePromise (foldl completionCallback l cs) = Rejected err"
proof (induction cs arbitrary: l)
  case Nil
  then show ?case by simp
next
  case (Cons c cs)
  show ?case
  proof (cases c)
    case (Some e)
    with Cons.prems have "e = err" by simp
    moreover have "pipelinePromise (completionCallback l c) = Rejected e"
      using Cons.prems Some by (simp add: completionCallback_def settle_def)
    ultimately show ?thesis by (simp add: settled_stays)
  next
    case None
    from Cons.prems None obtain d ds where cs: "cs = d # ds" by (cases cs) auto
    with Cons.prems have "pendingListeners l - 1 \<noteq> 0" by auto
    then have "pipelinePromise (completionCallback l c) = Pending"
      "pendingListeners (completionCallback l c) = pendingListeners l - 1"
      using Cons.prems None by (simp_all add: completionCallback_def Let_def)
    then show ?thesis using Cons.IH [of "completionCallback l c"] Cons.prems None by simp
  qed
qed

lemma rejected_iff:
  "pipelinePromise l = Pending \<Longrightarrow>
   pipelinePromise (foldl completionCallback l cs) = Rejected err \<longleftrightarrow>
     (\<exists>pre post. cs = pre @ Some err # post \<and> list_all (\<lambda>c. c = None) pre
        \<and> (pendingListeners l \<le> 0 \<or> int (length pre) < pendingListeners l))"
proof (induction cs arbitrary: l)
  case Nil
  then show ?case by simp
next
  case (Cons c cs)
  show ?case
  proof (cases c)
    case (Some e)
    have "pipelinePromise (completionCallback l c) = Rejected e"
      using Cons.prems Some by (simp add: completionCallback_def settle_def)
    then have l: "pipelinePromise (foldl completionCallback l (c # cs)) = Rejected e"
      by (simp add: settled_stays)
    have "(\<exists>pre post. c # cs = pre @ Some err # post \<and> list_all (\<lambda>c. c = None) pre
        \<and> (pendingListeners l \<le> 0 \<or> int (length pre) < pendingListeners l)) \<longleftrightarrow> e = err"
    proof
      assume "\<exists>pre post. c # cs = pre @ Some err # post \<and> list_all (\<lambda>c. c = None) pre
        \<and> (pendingListeners l \<le> 0 \<or> int (length pre) < pendingListeners l)"
      then obtain pre post where p: "c # cs = pre @ Some err # post" "list_all (\<lambda>c. c = None) pre"
        by blast
      then show "e = err" using Some by (cases pre) auto
    next
      assume "e = err"
      then have "c # cs = [] @ Some err # cs \<and> list_all (\<lambda>c. c = None) ([] :: error option list)
          \<and> (pendingListeners l \<le> 0
               \<or> int (length ([] :: error option list)) < pendingListeners l)"
        using Some by auto
      then show "\<exists>pre post. c # cs = pre @ Some err # post \<and> list_all (\<lambda>c. c = None) pre
        \<and> (pendingListeners l \<le> 0 \<or> int (length pre) < pendingListeners l)"
        by blast
    qed
    with l show ?thesis by auto
  next
    case None
    have shift: "(\<exists>pre post. c # cs = pre @ Some err # post \<and> list_all (\<lambda>c. c = None) pre \<and> P (length pre))
        \<longleftrightarrow> (\<exists>pre post. cs = pre @ Some err # post \<and> list_all (\<lambda>c. c = None) pre \<and> P (Suc (length pre)))"
      for P
    proof
      assume "\<exists>pre post. c # cs = pre @ Some err # post \<and> list_all (\<lambda>c. c = None) pre \<and> P (length pre)"
      then obtain pre post where p: "c # cs = pre @ Some err # post"
        "list_all (\<lambda>c. c = None) pre" "P (length pre)" by blast
      with None obtain pre' where "pre = None # pre'" by (cases pre) auto
      with p show "\<exists>pre post. cs = pre @ Some err # post \<and> list_all (\<lambda>c. c = None) pre \<and> P (Suc (length pre))"
        by auto
    next
      assume "\<exists>pre post. cs = pre @ Some err # post \<and> list_all (\<lambda>c. c = None) pre \<and> P (Suc (length pre))"
      then obtain pre post where p: "cs = pre @ Some err # post"
        "list_all (\<lambda>c. c = None) pre" "P (Suc (length pre))" by blast
      then have "c # cs = (None # pre) @ Some err # post" "list_all (\<lambda>c. c = None) (None # pre)"
        "P (length (None # pre))" using None by simp_all
      then show "\<exists>pre post. c # cs = pre @ Some err # post \<and> list_all (\<lambda>c. c = None) pre \<and> P (length pre)"
        by blast
    qed
    show ?thesis
    proof (cases "pendingListeners l = 1")
      case True
      have "pipelinePromise (completionCallback l c) = Resolved ()"
        using Cons.prems None True by (simp add: completionCallback_def settle_def)
      then have "pipelinePromise (foldl completionCallback l (c # cs)) = Resolved ()"
        by (simp add: settled_stays)
      moreover have "\<not> (\<exists>pre post. c # cs = pre @ Some err # post \<and> list_all (\<lambda>c. c = None) pre
        \<and> (pendingListeners l \<le> 0 \<or> int (length pre) < pendingListeners l))"
        using shift [of "\<lambda>n. pendingListeners l \<le> 0 \<or> int n < pendingListeners l"] True
        by simp
      ultimately show ?thesis by simp
    next
      case False
      let ?l = "completionCallback l c"
      have l': "pipelinePromise ?l = Pending" "pendingListeners ?l = pendingListeners l - 1"
        using Cons.prems None False by (simp_all add: completionCallback_def Let_def)
      have eq: "(pendingListeners l - 1 \<le> 0 \<or> int n < pendingListeners l - 1)
          \<longleftrightarrow> (pendingListeners l \<le> 0 \<or> int (Suc n) < pendingListeners l)" for n
        using False by auto
      have "pipelinePromise (foldl completionCallback l (c # cs)) = Rejected err \<longleftrightarrow>
            pipelinePromise (foldl completionCallback ?l cs) = Rejected err"
        by simp
      also have "\<dots> \<longleftrightarrow>
          (\<exists>pre post. cs = pre @ Some err # post \<and> list_all (\<lambda>c. c = None) pre
             \<and> (pendingListeners ?l \<le> 0 \<or> int (length pre) < pendingListeners ?l))"
        by (rule Cons.IH [OF l'(1)])
      also have "\<dots> \<longleftrightarrow>
          (\<exists>pre post. cs = pre @ Some err # post \<and> list_all (\<lambda>c. c = None) pre
             \<and> (pendingListeners l \<le> 0 \<or> int (Suc (length pre)) < pendingListeners l))"
        unfolding l'(2) eq ..
      also have "\<dots> \<longleftrightarrow>
          (\<exists>pre post. c # cs = pre @ Some err # post \<and> list_all (\<lambda>c. c = None) pre
             \<and> (pendingListeners l \<le> 0 \<or> int (length pre) < pendingListeners l))"
        by (rule shift [of "\<lambda>n. pendingListeners l \<le> 0 \<or> int n < pendingListeners l",
                        symmetric])
      finally show ?thesis .
    qed
  qed
qed

lemma first_error_found:
  "Some e \<in> set cs \<Longrightarrow> \<exists>err. find (\<lambda>c. c \<noteq> None) cs = Some (Some err)"
proof (induction cs)
  case Nil
  then show ?case by simp
next
  case (Cons c cs)
  show ?case
  proof (cases c)
    case None
    with Cons show ?thesis by simp
  next
    case (Some x)
    then show ?thesis by simp
  qed
qed

lemma first_error_member:
  "find (\<lambda>c. c \<noteq> None) cs = Some (Some first) \<Longrightarrow> Some first \<in> set cs"
  by (induction cs) (simp_all split: if_splits)

lemma rejected_under_contract:
  assumes "length calls \<le> listenerCount (emitter w) EvBatch"
    and "find (\<lambda>c. c \<noteq> None) calls = Some (Some err)"
  shows "emitBatchAndWaitForProcessing w calls = Rejected err"
  unfolding emitBatchAndWaitForProcessing_def
  by (rule rejected_first_error) (use assms in simp_all)

lemma any_error_rejects_under_contract:
  assumes a: "length calls \<le> listenerCount (emitter w) EvBatch \<and> Some e \<in> set calls"
  shows "\<exists>first. emitBatchAndWaitForProcessing w calls = Rejected first
                    \<and> Some first \<in> set calls"
proof -
  from a have "Some e \<in> set calls" by (rule conjunct2)
  then have "\<exists>first. find (\<lambda>c. c \<noteq> None) calls = Some (Some first)"
    by (rule first_error_found)
  then obtain first where f: "find (\<lambda>c. c \<noteq> None) calls = Some (Some first)" ..
  have m: "Some first \<in> set calls" using f by (rule first_error_member)
  have r: "emitBatchAndWaitForProcessing w calls = Rejected first"
    by (rule rejected_under_contract [OF a [THEN conjunct1] f])
  from r m show ?thesis by (intro exI conjI)
qed

text \<open>
  C7. \<open>n\<close> is the number of \<^verbatim>\<open>'batch'\<close> listeners captured at emit time. The pipeline
  promise of a batch dispatch is resolved exactly when \<open>n\<close> is positive and the first \<open>n\<close>
  calls of the completion callback were all made without an error: it resolves only
  after \<open>n\<close> error-free calls. It is rejected, with the first error passed, exactly when
  that error is passed before \<open>n\<close> error-free calls were made (or \<open>n\<close> is zero). Under the
  consumer contract, by which every listener calls the callback once (so that it is called
  no more often than there are listeners), any single call with an error rejects the
  promise, with the first error passed.
\<close>

theorem emitBatchAndWaitForProcessing_latch:
  "(emitBatchAndWaitForProcessing w calls = Resolved () \<longleftrightarrow>
      0 < listenerCount (emitter w) EvBatch
      \<and> listenerCount (emitter w) EvBatch \<le> length calls
      \<and> list_all (\<lambda>c. c = None) (take (listenerCount (emitter w) EvBatch) calls))
   \<and> (emitBatchAndWaitForProcessing w calls = Rejected err \<longleftrightarrow>
       (\<exists>pre post. calls = pre @ Some err # post \<and> list_all (\<lambda>c. c = None) pre
          \<and> (listenerCount (emitter w) EvBatch = 0
              \<or> length pre < listenerCount (emitter w) EvBatch)))
   \<and> (length calls \<le> listenerCount (emitter w) EvBatch
        \<and> find (\<lambda>c. c \<noteq> None) calls = Some (Some err)
      \<longrightarrow> emitBatchAndWaitForProcessing w calls = Rejected err)
   \<and> (length calls \<le> listenerCount (emitter w) EvBatch \<and> Some e \<in> set calls
      \<longrightarrow> (\<exists>first. emitBatchAndWaitForProcessing w calls = Rejected first
                    \<and> Some first \<in> set calls))"
proof (intro conjI)
  show "emitBatchAndWaitForProcessing w calls = Resolved () \<longleftrightarrow>
      0 < listenerCount (emitter w) EvBatch
      \<and> listenerCount (emitter w) EvBatch \<le> length calls
      \<and> list_all (\<lambda>c. c = None) (take (listenerCount (emitter w) EvBatch) calls)"
    unfolding emitBatchAndWaitForProcessing_def by (simp add: resolved_iff)
next
  show "emitBatchAndWaitForProcessing w calls = Rejected err \<longleftrightarrow>
       (\<exists>pre post. calls = pre @ Some err # post \<and> list_all (\<lambda>c. c = None) pre
          \<and> (listenerCount (emitter w) EvBatch = 0
              \<or> length pre < listenerCount (emitter w) EvBatch))"
    unfolding emitBatchAndWaitForProcessing_def by (simp add: rejected_iff)
next
  show "length calls \<le> listenerCount (emitter w) EvBatch
        \<and> find (\<lambda>c. c \<noteq> None) calls = Some (Some err)
      \<longrightarrow> emitBatchAndWaitForProcessing w calls = Rejected err"
  proof (rule impI)
    assume h: "length calls \<le> listenerCount (emitter w) EvBatch
        \<and> find (\<lambda>c. c \<noteq> None) calls = Some (Some err)"
    show "emitBatchAndWaitForProcessing w calls = Rejected err"
      by (rule rejected_under_contract [OF h [THEN conjunct1] h [THEN conjunct2]])
  qed
next
  show "length calls \<le> listenerCount (emitter w) EvBatch \<and> Some e \<in> set calls
      \<longrightarrow> (\<exists>first. emitBatchAndWaitForProcessing w calls = Rejected first
                    \<and> Some first \<in> set calls)"
    by (rule impI) (rule any_error_rejects_under_contract)
qed

theorem emitBatchAndWaitForProcessing_latch_witness:
  "length [None, Some (getError ''Error'' ''boom'')]
     \<le> listenerCount (emitter (on (on exampleWorker EvBatch 10) EvBatch 20)) EvBatch
   \<and> find (\<lambda>c. c \<noteq> None) [None, Some (getError ''Error'' ''boom'')]
       = Some (Some (getError ''Error'' ''boom''))
   \<and> Some (getError ''Error'' ''boom'') \<in> set [None, Some (getError ''Error'' ''boom'')]
   \<and> emitBatchAndWaitForProcessing (on (on exampleWorker EvBatch 10) EvBatch 20)
        [None, Some (getError ''Error'' ''boom'')] = Rejected (getError ''Error'' ''boom'')
   \<and> (\<exists>first. emitBatchAndWaitForProcessing (on (on exampleWorker EvBatch 10) EvBatch 20)
                 [None, Some (getError ''Error'' ''boom'')] = Rejected first
               \<and> Some first \<in> set [None, Some (getError ''Error'' ''boom'')])
   \<and> emitBatchAndWaitForProcessing (on (on exampleWorker EvBatch 10) EvBatch 20) [None, None]
       = Resolved ()"
proof -
  have n: "listenerCount (emitter (on (on exampleWorker EvBatch 10) EvBatch 20)) EvBatch = 2"
    by (simp add: on_def exampleWorker_def emitter_on_def listenerCount_def Let_def)
  have calls: "length [None, Some (getError ''Error'' ''boom'')]
       \<le> listenerCount (emitter (on (on exampleWorker EvBatch 10) EvBatch 20)) EvBatch
     \<and> find (\<lambda>c. c \<noteq> None) [None, Some (getError ''Error'' ''boom'')]
         = Some (Some (getError ''Error'' ''boom''))"
    by (simp add: n)
  have member: "length [None, Some (getError ''Error'' ''boom'')]
       \<le> listenerCount (emitter (on (on exampleWorker EvBatch 10) EvBatch 20)) EvBatch
     \<and> Some (getError ''Error'' ''boom'') \<in> set [None, Some (getError ''Error'' ''boom'')]"
    by (simp add: n)
  note rejected = emitBatchAndWaitForProcessing_latch
                    [THEN conjunct2, THEN conjunct2, THEN conjunct1, THEN mp, OF calls]
  note any = emitBatchAndWaitForProcessing_latch
               [THEN conjunct2, THEN conjunct2, THEN conjunct2, THEN mp, OF member]
  have "0 < listenerCount (emitter (on (on exampleWorker EvBatch 10) EvBatch 20)) EvBatch
      \<and> listenerCount (emitter (on (on exampleWorker EvBatch 10) EvBatch 20)) EvBatch
          \<le> length [None :: error option, None]
      \<and> list_all (\<lambda>c. c = None)
          (take (listenerCount (emitter (on (on exampleWorker EvBatch 10) EvBatch 20)) EvBatch)
             [None :: error option, None])"
    by (simp add: n)
  then have resolved:
    "emitBatchAndWaitForProcessing (on (on exampleWorker EvBatch 10) EvBatch 20) [None, None]
       = Resolved ()"
    by (rule emitBatchAndWaitForProcessing_latch [THEN conjunct1, THEN iffD2])
  show ?thesis
    by (intro conjI)
       (rule calls [THEN conjunct1] calls [THEN conjunct2] member [THEN conjunct2]
             rejected any resolved)+
qed

subsection \<open>Reading from the framed message stream\<close>

lemma dispose_stops: "processingCancelled (dispose w) \<or> disposed (dispose w)"
  by (auto simp: dispose_def closeTcpClient_def)

text \<open>
  The claim C8 as it is stated fails: \<^verbatim>\<open>dispose()\<close> is called while a read is pending,
  the stream's next event is \<^verbatim>\<open>'end'\<close>, and the read raises the synthetic
  SubscriptionException although the worker is disposed by then.
\<close>

theorem readNextObject_raises_after_dispose:
  "readNextObject exampleWorker [DisposeCalled, StreamEnd :: server_message stream_event]
   = (Rejected (getError ''SubscriptionException''
                  ''Subscription stream has ended unexpectedly.''),
      dispose exampleWorker, [])
   \<and> disposed (dispose exampleWorker)"
  by (simp add: exampleWorker_def dispose_def closeTcpClient_def)

text \<open>
  C8, amended. A read started when processing is cancelled or the worker disposed
  resolves to null without raising, whatever the stream does. For a read started before:
  if \<^verbatim>\<open>dispose()\<close> is called while it is pending and it is then woken by \<^verbatim>\<open>'readable'\<close>
  (with or without data), it resolves to null and reads nothing; if it is then woken by
  \<^verbatim>\<open>'end'\<close> it raises the synthetic SubscriptionException, and if by \<^verbatim>\<open>'error'\<close> the
  stream's error, as it does when \<^verbatim>\<open>dispose()\<close> was not called: the wait does not
  consult the disposed flag.
\<close>

theorem readNextObject_and_dispose:
  "(processingCancelled w \<or> disposed w \<longrightarrow> readNextObject w es = (Resolved None, w, es))
   \<and> (\<not> processingCancelled w \<and> \<not> disposed w \<longrightarrow>
        readNextObject w (DisposeCalled # Readable # es) = (Resolved None, dispose w, es)
        \<and> readNextObject w (DisposeCalled # Item x # es)
            = (Resolved None, dispose w, Item x # es)
        \<and> readNextObject w (DisposeCalled # StreamEnd # es) =
            (Rejected (getError ''SubscriptionException''
                         ''Subscription stream has ended unexpectedly.''), dispose w, es)
        \<and> readNextObject w (DisposeCalled # StreamError err # es)
            = (Rejected err, dispose w, es)
        \<and> readNextObject w (StreamEnd # es) =
            (Rejected (getError ''SubscriptionException''
                         ''Subscription stream has ended unexpectedly.''), w, es))"
  using dispose_stops [of w] by auto

theorem readNextObject_and_dispose_witness:
  "(processingCancelled (dispose exampleWorker) \<or> disposed (dispose exampleWorker))
   \<and> readNextObject (dispose exampleWorker) [Item (dataFrame ''users/1''), StreamEnd]
       = (Resolved None, dispose exampleWorker, [Item (dataFrame ''users/1''), StreamEnd])
   \<and> \<not> processingCancelled exampleWorker \<and> \<not> disposed exampleWorker
   \<and> readNextObject exampleWorker [DisposeCalled, Readable, Item (dataFrame ''users/1'')]
       = (Resolved None, dispose exampleWorker, [Item (dataFrame ''users/1'')])"
proof -
  have stopped:
    "processingCancelled (dispose exampleWorker) \<or> disposed (dispose exampleWorker)"
    by (rule dispose_stops)
  have live: "\<not> processingCancelled exampleWorker \<and> \<not> disposed exampleWorker"
    by (simp add: exampleWorker_def)
  note after = readNextObject_and_dispose [THEN conjunct1, THEN mp, OF stopped]
  note during = readNextObject_and_dispose [THEN conjunct2, THEN mp, OF live, THEN conjunct1]
  show ?thesis
    using stopped live after [of "[Item (dataFrame ''users/1''), StreamEnd]"]
      during [of "[Item (dataFrame ''users/1'')]"]
    by blast
qed

subsection \<open>Protocol negotiation\<close>

text \<open>
  The parts of C5 that the code does: an Ok response yields its version, an
  AuthorizationFailed response raises AuthorizationException, a TcpVersionMismatch
  response with a version other than \<^verbatim>\<open>OUT_OF_RANGE_STATUS\<close> yields that version, and a
  negotiated protocol version that is not positive raises InvalidOperationException.
\<close>

lemma readServerResponseAndGetVersion_selects:
  assumes "\<not> processingCancelled w" "\<not> disposed w"
  shows "(hr_status x = ''Ok'' \<longrightarrow>
            fst (readServerResponseAndGetVersion oor v w (Item x # es) outcome)
              = Resolved (hr_version x))
   \<and> (hr_status x = ''AuthorizationFailed'' \<longrightarrow>
         (\<exists>err. fst (readServerResponseAndGetVersion oor v w (Item x # es) outcome)
                  = Rejected err
                \<and> err_name err = ''AuthorizationException''))
   \<and> (hr_status x = ''TcpVersionMismatch'' \<and> hr_version x \<noteq> oor \<longrightarrow>
         fst (readServerResponseAndGetVersion oor v w (Item x # es) outcome)
           = Resolved (hr_version x))"
  using assms by (simp add: readServerResponseAndGetVersion_def getError_def)

lemma connectToServer_invalid_version:
  "ce_tcpInfo env = Resolved node \<Longrightarrow> ce_connect env = Resolved () \<Longrightarrow>
   ce_negotiate env = Resolved version \<Longrightarrow> version \<le> 0 \<Longrightarrow>
   \<exists>err. fst (connectToServer w env) = Rejected err
         \<and> err_name err = ''InvalidOperationException''"
  by (simp add: connectToServer_def Let_def getError_def)

text \<open>
  When \<^verbatim>\<open>_sendDropMessage\<close> is given a response it does write the Drop frame, after
  which the caller raises InvalidOperationException.
\<close>

lemma sendDropMessage_writes_drop:
  "case sendDropMessage v (w\<lparr>tcpClient := Some s\<rparr>) (Some theirs) None of
     Inl err \<Rightarrow> False
   | Inr (p, w') \<Rightarrow>
       p = Resolved ()
       \<and> (\<exists>info. map_option sent (tcpClient w') = Some (sent s @ [DropFrame (dbName w) v info]))"
  by (simp add: sendDropMessage_def socket_write_def)

text \<open>
  C5 (the code departs from it). A well-formed header response with status
  TcpVersionMismatch and version \<^verbatim>\<open>OUT_OF_RANGE_STATUS\<close> has no \<^verbatim>\<open>value\<close> property, yet
  the drop message is built from \<^verbatim>\<open>x.value\<close>: reading its version raises TypeError.
  No Drop frame is written (the socket has sent nothing) and the error raised is not
  InvalidOperationException.
\<close>

theorem readServerResponseAndGetVersion_out_of_range:
  "readServerResponseAndGetVersion outOfRangeStatus subscriptionTcpVersion connectedWorker
     [Item \<lparr>hr_status = ''TcpVersionMismatch'', hr_version = outOfRangeStatus,
            hr_message = msg, hr_value = None\<rparr>] outcome
   = (Rejected (typeError ''version of undefined''), connectedWorker, [])
   \<and> map_option sent (tcpClient connectedWorker) = Some []
   \<and> err_name (typeError ''version of undefined'') \<noteq> ''InvalidOperationException''"
  by (simp add: readServerResponseAndGetVersion_def connectedWorker_def exampleWorker_def
      ensureParser_def sendDropMessage_def newSocket_def typeError_def getError_def)

subsection \<open>The reconnect controller\<close>

lemma dispose_keeps:
  "options (dispose w) = options w" "emitter (dispose w) = emitter w"
  "lastConnectionFailure (dispose w) = lastConnectionFailure w"
  "redirectNode (dispose w) = redirectNode w"
  by (simp_all add: dispose_def closeTcpClient_def)

lemma shouldTryToReconnect_fatal:
  "err_name ex \<in> set fatalErrorNames \<Longrightarrow>
   shouldTryToReconnect topo now w ex = (Inr False, w\<lparr>processingCancelled := True\<rparr>)"
  by (auto simp: shouldTryToReconnect_def fatalErrorNames_def)

lemma shouldTryToReconnect_concurrency:
  "err_name ex = ''SubscriptionChangeVectorUpdateConcurrencyException'' \<Longrightarrow>
   shouldTryToReconnect topo now w ex = (Inr True, w)"
  by (simp add: shouldTryToReconnect_def)

lemma assertLastConnectionFailure_cases:
  "assertLastConnectionFailure now w =
     (if erroneousPeriodExceeded now w
      then Inl (getError ''SubscriptionInvalidStateException''
                      (''Subscription connection was in invalid state for more than ''
                         @ show_int (maxErroneousPeriod (options w))
                         @ '' and therefore will be terminated.''))
      else Inr (w\<lparr>lastConnectionFailure :=
                  Some (case lastConnectionFailure w of None \<Rightarrow> now | Some since \<Rightarrow> since)\<rparr>))"
  by (auto simp: assertLastConnectionFailure_def erroneousPeriodExceeded_def split: option.splits)

lemma shouldTryToReconnect_exceeded:
  "err_name ex \<notin> set fatalErrorNames \<Longrightarrow>
   err_name ex \<noteq> ''SubscriptionChangeVectorUpdateConcurrencyException'' \<Longrightarrow>
   erroneousPeriodExceeded now w \<Longrightarrow>
   \<exists>thrown. shouldTryToReconnect topo now w ex = (Inl thrown, w)
     \<and> err_name thrown = ''SubscriptionInvalidStateException''"
  by (auto simp: shouldTryToReconnect_def assertLastConnectionFailure_cases getError_def)

lemma shouldTryToReconnect_unknown_node:
  "err_name ex = ''SubscriptionDoesNotBelongToNodeException'' \<Longrightarrow>
   \<not> erroneousPeriodExceeded now w \<Longrightarrow> redirectTargetUnknown topo ex \<Longrightarrow>
   \<exists>thrown w2. shouldTryToReconnect topo now w ex = (Inl thrown, w2)
     \<and> err_name thrown = ''InvalidOperationException''
     \<and> processingCancelled w2 = processingCancelled w"
  by (auto simp: shouldTryToReconnect_def assertLastConnectionFailure_cases getError_def redirectTargetUnknown_def
      split: option.splits)

lemma shouldTryToReconnect_retry:
  "err_name ex \<notin> set fatalErrorNames \<Longrightarrow>
   err_name ex = ''SubscriptionChangeVectorUpdateConcurrencyException'' \<or>
     \<not> erroneousPeriodExceeded now w \<Longrightarrow>
   err_name ex = ''SubscriptionDoesNotBelongToNodeException'' \<longrightarrow> \<not> redirectTargetUnknown topo ex \<Longrightarrow>
   fst (shouldTryToReconnect topo now w ex) = Inr True"
  by (auto simp: shouldTryToReconnect_def assertLastConnectionFailure_cases redirectTargetUnknown_def
      split: option.splits)

lemma shouldTryToReconnect_keeps:
  "options (snd (shouldTryToReconnect topo now w ex)) = options w"
  "emitter (snd (shouldTryToReconnect topo now w ex)) = emitter w"
  "disposed (snd (shouldTryToReconnect topo now w ex)) = disposed w"
  by (auto simp: shouldTryToReconnect_def assertLastConnectionFailure_cases split: option.splits)

lemma failingTurn_throws:
  "\<not> processingCancelled w \<Longrightarrow> \<not> disposed w \<Longrightarrow>
   processSubscription (closeTcpClient w) (tn_process (failingTurn err topo now))
     = (Rejected err, (closeTcpClient w)\<lparr>redirectNode := None\<rparr>)"
  by (cases "redirectNode w")
     (auto simp: processSubscription_def outerCatch_def failingTurn_def failingConnect_def connectToServer_def
      closeTcpClient_def Let_def)

lemma goodConnect_resolves:
  "\<not> processingCancelled w \<Longrightarrow> \<not> disposed w \<Longrightarrow>
   fst (connectToServer w (goodConnect node)) = Resolved ()
   \<and> \<not> processingCancelled (snd (connectToServer w (goodConnect node)))
   \<and> \<not> disposed (snd (connectToServer w (goodConnect node)))"
  by (simp add: connectToServer_def goodConnect_def Let_def sendOptions_def ensureParser_def)

text \<open>
  The claim C2 as it is stated fails: a ConnectionException is none of the eight fatal
  kinds, yet when the last connection failure lies more than \<^verbatim>\<open>maxErroneousPeriod\<close>
  back the controller does not retry: the loop ends with a
  SubscriptionInvalidStateException, nothing is slept or emitted, and processing is not
  marked cancelled.
\<close>

theorem runSubscriptionAsync_escalates_instead_of_retrying:
  "''ConnectionException'' \<notin> set fatalErrorNames
   \<and> (case runSubscriptionAsync (exampleWorker\<lparr>lastConnectionFailure := Some 0\<rparr>)
             [failingTurn (getError ''ConnectionException'' ''connect ECONNREFUSED'') [] 300001,
              failingTurn (getError ''ConnectionException'' ''connect ECONNREFUSED'') [] 300002] [] of
         (Rejected thrown, acts, w') \<Rightarrow>
            err_name thrown = ''SubscriptionInvalidStateException'' \<and> acts = []
            \<and> \<not> processingCancelled w'
       | _ \<Rightarrow> False)"
  by (simp add: fatalErrorNames_def exampleWorker_def exampleOptions_def
        processSubscription_def outerCatch_def failingTurn_def failingConnect_def connectToServer_def
        shouldTryToReconnect_def assertLastConnectionFailure_def getError_def closeTcpClient_def)

text \<open>
  C2, amended. A subscription iteration throws \<open>error\<close> while processing is not
  cancelled. If the kind of \<open>error\<close> is one of the eight fatal kinds, the controller
  sets \<^verbatim>\<open>_processingCancelled\<close> and re-throws \<open>error\<close>. For every other kind it
  retries (the loop goes on after sleeping \<^verbatim>\<open>timeToWaitBeforeConnectionRetry\<close> and then
  emitting \<^verbatim>\<open>connectionRetry\<close> with \<open>error\<close>) unless the erroneous-window guard has
  run out, which does not apply to SubscriptionChangeVectorUpdateConcurrencyException, or
  the error is a redirect to a node missing from the local topology; in these two cases
  it throws SubscriptionInvalidStateException, respectively InvalidOperationException,
  without retrying and without cancelling processing.
\<close>

theorem runSubscriptionAsync_reconnect_policy:
  assumes "\<not> processingCancelled w"
    and "processSubscription (closeTcpClient w) (tn_process t) = (Rejected error, w1)"
    and "\<not> processingCancelled w1"
  shows
   "(err_name error \<in> set fatalErrorNames \<longrightarrow>
       runSubscriptionAsync w (t # ts) acts
         = (Rejected error, acts, w1\<lparr>processingCancelled := True\<rparr>))
    \<and> (err_name error \<notin> set fatalErrorNames
        \<and> (err_name error = ''SubscriptionChangeVectorUpdateConcurrencyException''
            \<or> \<not> erroneousPeriodExceeded (tn_now t) w1)
        \<and> (err_name error = ''SubscriptionDoesNotBelongToNodeException''
            \<longrightarrow> \<not> redirectTargetUnknown (tn_topology t) error) \<longrightarrow>
       runSubscriptionAsync w (t # ts) acts
         = runSubscriptionAsync
             (if tn_disposeDuringDelay t
              then dispose (snd (shouldTryToReconnect (tn_topology t) (tn_now t) w1 error))
              else snd (shouldTryToReconnect (tn_topology t) (tn_now t) w1 error))
             ts
             (acts @ [Delay (timeToWaitBeforeConnectionRetry (options w1)),
                      Emit EvConnectionRetry (ErrorArg error)]))
    \<and> (err_name error \<notin> set fatalErrorNames
        \<and> err_name error \<noteq> ''SubscriptionChangeVectorUpdateConcurrencyException''
        \<and> erroneousPeriodExceeded (tn_now t) w1 \<longrightarrow>
       (\<exists>thrown. runSubscriptionAsync w (t # ts) acts = (Rejected thrown, acts, w1)
          \<and> err_name thrown = ''SubscriptionInvalidStateException''))
    \<and> (err_name error = ''SubscriptionDoesNotBelongToNodeException''
        \<and> \<not> erroneousPeriodExceeded (tn_now t) w1
        \<and> redirectTargetUnknown (tn_topology t) error \<longrightarrow>
       (\<exists>thrown w2. runSubscriptionAsync w (t # ts) acts = (Rejected thrown, acts, w2)
          \<and> err_name thrown = ''InvalidOperationException''
          \<and> \<not> processingCancelled w2))"
proof (intro conjI impI)
  assume "err_name error \<in> set fatalErrorNames"
  then show "runSubscriptionAsync w (t # ts) acts
         = (Rejected error, acts, w1\<lparr>processingCancelled := True\<rparr>)"
    using assms by (simp add: shouldTryToReconnect_fatal)
next
  let ?r = "shouldTryToReconnect (tn_topology t) (tn_now t) w1 error"
  assume a: "err_name error \<notin> set fatalErrorNames
        \<and> (err_name error = ''SubscriptionChangeVectorUpdateConcurrencyException''
            \<or> \<not> erroneousPeriodExceeded (tn_now t) w1)
        \<and> (err_name error = ''SubscriptionDoesNotBelongToNodeException''
            \<longrightarrow> \<not> redirectTargetUnknown (tn_topology t) error)"
  then have "fst ?r = Inr True" by (intro shouldTryToReconnect_retry) auto
  then obtain w2 where r: "?r = (Inr True, w2)" by (cases ?r) auto
  have w2: "options w2 = options w1" "emitter w2 = emitter w1"
    using shouldTryToReconnect_keeps [of "tn_topology t" "tn_now t" w1 error] r by simp_all
  show "runSubscriptionAsync w (t # ts) acts
         = runSubscriptionAsync
             (if tn_disposeDuringDelay t then dispose (snd ?r) else snd ?r) ts
             (acts @ [Delay (timeToWaitBeforeConnectionRetry (options w1)),
                      Emit EvConnectionRetry (ErrorArg error)])"
    using assms r w2 by (simp add: emit_def Let_def dispose_keeps)
next
  assume "err_name error \<notin> set fatalErrorNames
        \<and> err_name error \<noteq> ''SubscriptionChangeVectorUpdateConcurrencyException''
        \<and> erroneousPeriodExceeded (tn_now t) w1"
  then obtain thrown where
    "shouldTryToReconnect (tn_topology t) (tn_now t) w1 error = (Inl thrown, w1)"
    "err_name thrown = ''SubscriptionInvalidStateException''"
    using shouldTryToReconnect_exceeded by blast
  then show "\<exists>thrown. runSubscriptionAsync w (t # ts) acts = (Rejected thrown, acts, w1)
          \<and> err_name thrown = ''SubscriptionInvalidStateException''"
    using assms by simp
next
  assume "err_name error = ''SubscriptionDoesNotBelongToNodeException''
        \<and> \<not> erroneousPeriodExceeded (tn_now t) w1
        \<and> redirectTargetUnknown (tn_topology t) error"
  then obtain thrown w2 where
    "shouldTryToReconnect (tn_topology t) (tn_now t) w1 error = (Inl thrown, w2)"
    "err_name thrown = ''InvalidOperationException''"
    "processingCancelled w2 = processingCancelled w1"
    using shouldTryToReconnect_unknown_node by blast
  then show "\<exists>thrown w2. runSubscriptionAsync w (t # ts) acts = (Rejected thrown, acts, w2)
          \<and> err_name thrown = ''InvalidOperationException''
          \<and> \<not> processingCancelled w2"
    using assms by simp
qed

theorem runSubscriptionAsync_reconnect_policy_witness:
  "\<not> processingCancelled exampleWorker
   \<and> processSubscription (closeTcpClient exampleWorker) (tn_process (failingTurn refused [] 1000))
       = (Rejected refused, afterFailedConnect)
   \<and> processSubscription (closeTcpClient exampleWorker) (tn_process (failingTurn unauthorized [] 1000))
       = (Rejected unauthorized, afterFailedConnect)
   \<and> \<not> processingCancelled afterFailedConnect
   \<and> err_name unauthorized \<in> set fatalErrorNames
   \<and> runSubscriptionAsync exampleWorker [failingTurn unauthorized [] 1000] []
       = (Rejected unauthorized, [], afterFailedConnect\<lparr>processingCancelled := True\<rparr>)
   \<and> err_name refused \<notin> set fatalErrorNames
   \<and> \<not> erroneousPeriodExceeded 1000 afterFailedConnect
   \<and> fst (snd (runSubscriptionAsync exampleWorker [failingTurn refused [] 1000] []))
       = [Delay 5000, Emit EvConnectionRetry (ErrorArg refused)]"
proof -
  have live: "\<not> processingCancelled exampleWorker" "\<not> disposed exampleWorker"
    by (simp_all add: exampleWorker_def)
  have thrown:
    "processSubscription (closeTcpClient exampleWorker) (tn_process (failingTurn err [] 1000))
       = (Rejected err, afterFailedConnect)" for err
    unfolding afterFailedConnect_def by (rule failingTurn_throws [OF live])
  have still: "\<not> processingCancelled afterFailedConnect"
    by (simp add: afterFailedConnect_def closeTcpClient_def exampleWorker_def)
  have names: "err_name unauthorized \<in> set fatalErrorNames"
    "err_name refused \<notin> set fatalErrorNames"
    "err_name refused \<noteq> ''SubscriptionDoesNotBelongToNodeException''"
    by (simp_all add: unauthorized_def refused_def getError_def fatalErrorNames_def)
  have fresh: "\<not> erroneousPeriodExceeded 1000 afterFailedConnect"
    by (simp add: erroneousPeriodExceeded_def afterFailedConnect_def closeTcpClient_def
        exampleWorker_def)
  have opts: "timeToWaitBeforeConnectionRetry (options afterFailedConnect) = 5000"
    by (simp add: afterFailedConnect_def closeTcpClient_def exampleWorker_def exampleOptions_def)
  have fatal: "runSubscriptionAsync exampleWorker [failingTurn unauthorized [] 1000] []
       = (Rejected unauthorized, [], afterFailedConnect\<lparr>processingCancelled := True\<rparr>)"
    using runSubscriptionAsync_reconnect_policy [OF live(1) thrown [of unauthorized] still, of "[]" "[]"] names(1) by blast
  have "runSubscriptionAsync exampleWorker [failingTurn refused [] 1000] []
       = runSubscriptionAsync
           (snd (shouldTryToReconnect [] 1000 afterFailedConnect refused)) []
           [Delay 5000, Emit EvConnectionRetry (ErrorArg refused)]"
    using runSubscriptionAsync_reconnect_policy [OF live(1) thrown [of refused] still, of "[]" "[]"] names(2,3) fresh opts
    by (simp add: failingTurn_def)
  then have retry: "fst (snd (runSubscriptionAsync exampleWorker [failingTurn refused [] 1000] []))
       = [Delay 5000, Emit EvConnectionRetry (ErrorArg refused)]"
    by simp
  show ?thesis
    using live(1) thrown [of refused] thrown [of unauthorized] still names(1,2) fatal fresh retry
    by blast
qed

text \<open>
  The claim C3 as it is stated fails: a
  SubscriptionChangeVectorUpdateConcurrencyException is classified as non-fatal (retry)
  while no connection failure is on record, and none is recorded.
\<close>

theorem concurrency_retry_records_no_failure:
  "shouldTryToReconnect [] 1000 exampleWorker concurrency = (Inr True, exampleWorker)
   \<and> lastConnectionFailure exampleWorker = None"
  by (simp add: shouldTryToReconnect_def concurrency_def getError_def exampleWorker_def)

lemma processSubscription_clears_failure:
  assumes "\<not> processingCancelled w"
    and "connectToServer w (pe_connect env) = (Resolved (), w1)"
    and "\<not> processingCancelled w1" and "\<not> disposed w1"
    and "pe_stream env = Item cs # rest"
    and "msg_type cs = ''ConnectionStatus''" and "msg_status cs = Some ''Accepted''"
    and "\<not> processingCancelled (fst (afterAwait w1 rest))"
  shows "lastConnectionFailure (snd (processSubscription w env)) = None"
proof -
  obtain w2 es2 where aw: "afterAwait w1 rest = (w2, es2)" by (cases "afterAwait w1 rest")
  with assms(8) have w2: "\<not> processingCancelled w2" by simp
  have "lastConnectionFailure (snd (processConnected w1 env)) = None"
    using assms(3-7) aw w2
    by (auto simp: processConnected_def Let_def dispose_keeps split: option.splits)
  then show ?thesis
    using assms(1,2)
    by (cases "processConnected w1 env")
       (auto simp: processSubscription_def outerCatch_def Let_def closeTcpClient_def
          split: promise.splits prod.splits)
qed

text \<open>
  C3, amended. On the classification of an error that is neither of a fatal kind nor a
  SubscriptionChangeVectorUpdateConcurrencyException: if \<^verbatim>\<open>_lastConnectionFailure\<close> is
  unset it is set to the current time; if it is set and more than
  \<^verbatim>\<open>maxErroneousPeriod\<close> has passed since, the controller raises
  SubscriptionInvalidStateException and leaves the worker as it is; otherwise it stays.
  A SubscriptionChangeVectorUpdateConcurrencyException is retried without touching it.
  It is cleared by the iteration in which, processing not being cancelled, the first
  message after connecting is a connection status Accepted.
\<close>

theorem lastConnectionFailure_guard:
  "(err_name ex \<notin> set fatalErrorNames
      \<and> err_name ex \<noteq> ''SubscriptionChangeVectorUpdateConcurrencyException'' \<longrightarrow>
      (lastConnectionFailure w = None \<longrightarrow>
         lastConnectionFailure (snd (shouldTryToReconnect topo now w ex)) = Some now)
      \<and> (lastConnectionFailure w = Some since
           \<and> now - since > maxErroneousPeriod (options w) \<longrightarrow>
          (\<exists>thrown. shouldTryToReconnect topo now w ex = (Inl thrown, w)
             \<and> err_name thrown = ''SubscriptionInvalidStateException''))
      \<and> (lastConnectionFailure w = Some since
           \<and> \<not> now - since > maxErroneousPeriod (options w) \<longrightarrow>
          lastConnectionFailure (snd (shouldTryToReconnect topo now w ex)) = Some since))
   \<and> (err_name ex = ''SubscriptionChangeVectorUpdateConcurrencyException'' \<longrightarrow>
        shouldTryToReconnect topo now w ex = (Inr True, w))
   \<and> (\<not> processingCancelled w
        \<and> connectToServer w (pe_connect env) = (Resolved (), w1)
        \<and> \<not> processingCancelled w1 \<and> \<not> disposed w1
        \<and> pe_stream env = Item cs # rest
        \<and> msg_type cs = ''ConnectionStatus'' \<and> msg_status cs = Some ''Accepted''
        \<and> \<not> processingCancelled (fst (afterAwait w1 rest)) \<longrightarrow>
        lastConnectionFailure (snd (processSubscription w env)) = None)"
proof (intro conjI impI)
  assume "err_name ex = ''SubscriptionChangeVectorUpdateConcurrencyException''"
  then show "shouldTryToReconnect topo now w ex = (Inr True, w)"
    by (rule shouldTryToReconnect_concurrency)
next
  assume "\<not> processingCancelled w
        \<and> connectToServer w (pe_connect env) = (Resolved (), w1)
        \<and> \<not> processingCancelled w1 \<and> \<not> disposed w1
        \<and> pe_stream env = Item cs # rest
        \<and> msg_type cs = ''ConnectionStatus'' \<and> msg_status cs = Some ''Accepted''
        \<and> \<not> processingCancelled (fst (afterAwait w1 rest))"
  then show "lastConnectionFailure (snd (processSubscription w env)) = None"
    using processSubscription_clears_failure by blast
next
  assume n: "err_name ex \<notin> set fatalErrorNames
      \<and> err_name ex \<noteq> ''SubscriptionChangeVectorUpdateConcurrencyException''"
  {
    assume "lastConnectionFailure w = None"
    with n show "lastConnectionFailure (snd (shouldTryToReconnect topo now w ex)) = Some now"
      by (auto simp: shouldTryToReconnect_def assertLastConnectionFailure_def
          split: option.splits)
  next
    assume "lastConnectionFailure w = Some since
           \<and> now - since > maxErroneousPeriod (options w)"
    then have "erroneousPeriodExceeded now w" by (simp add: erroneousPeriodExceeded_def)
    with n show "\<exists>thrown. shouldTryToReconnect topo now w ex = (Inl thrown, w)
             \<and> err_name thrown = ''SubscriptionInvalidStateException''"
      using shouldTryToReconnect_exceeded by blast
  next
    assume "lastConnectionFailure w = Some since
           \<and> \<not> now - since > maxErroneousPeriod (options w)"
    with n show "lastConnectionFailure (snd (shouldTryToReconnect topo now w ex)) = Some since"
      by (auto simp: shouldTryToReconnect_def assertLastConnectionFailure_def
          split: option.splits)
  }
qed

theorem lastConnectionFailure_guard_witness:
  "err_name refused \<notin> set fatalErrorNames
   \<and> err_name refused \<noteq> ''SubscriptionChangeVectorUpdateConcurrencyException''
   \<and> lastConnectionFailure exampleWorker = None
   \<and> lastConnectionFailure (snd (shouldTryToReconnect [] 1000 exampleWorker refused)) = Some 1000
   \<and> lastConnectionFailure staleWorker = Some 0
   \<and> 300001 - 0 > maxErroneousPeriod (options staleWorker)
   \<and> (\<exists>thrown. shouldTryToReconnect [] 300001 staleWorker refused = (Inl thrown, staleWorker)
         \<and> err_name thrown = ''SubscriptionInvalidStateException'')
   \<and> \<not> processingCancelled staleWorker
   \<and> fst (connectToServer staleWorker (pe_connect acceptedStream)) = Resolved ()
   \<and> pe_stream acceptedStream = [Item (statusFrame ''Accepted'')]
   \<and> lastConnectionFailure (snd (processSubscription staleWorker acceptedStream)) = None"
proof -
  have names: "err_name refused \<notin> set fatalErrorNames
      \<and> err_name refused \<noteq> ''SubscriptionChangeVectorUpdateConcurrencyException''"
    by (simp add: refused_def getError_def fatalErrorNames_def)
  have unset: "lastConnectionFailure exampleWorker = None"
    by (simp add: exampleWorker_def)
  have stale: "lastConnectionFailure staleWorker = Some 0
      \<and> 300001 - 0 > maxErroneousPeriod (options staleWorker)"
    by (simp add: staleWorker_def exampleWorker_def exampleOptions_def)
  have live: "\<not> processingCancelled staleWorker" "\<not> disposed staleWorker"
    by (simp_all add: staleWorker_def exampleWorker_def)
  let ?w1 = "snd (connectToServer staleWorker (pe_connect acceptedStream))"
  have env: "pe_connect acceptedStream = goodConnect nodeA"
    "pe_stream acceptedStream = Item (statusFrame ''Accepted'') # []"
    by (simp_all add: acceptedStream_def)
  have conn: "fst (connectToServer staleWorker (pe_connect acceptedStream)) = Resolved ()"
    "\<not> processingCancelled ?w1" "\<not> disposed ?w1"
    using goodConnect_resolves [OF live] by (simp_all add: env)
  then have conn': "connectToServer staleWorker (pe_connect acceptedStream) = (Resolved (), ?w1)"
    by (metis prod.collapse)
  have frame: "msg_type (statusFrame ''Accepted'') = ''ConnectionStatus''"
    "msg_status (statusFrame ''Accepted'') = Some ''Accepted''"
    by (simp_all add: statusFrame_def frameOfType_def)
  have quiet: "\<not> processingCancelled (fst (afterAwait ?w1 []))"
    using conn(2) by simp
  note set_now = lastConnectionFailure_guard [where ex = refused and w = exampleWorker and topo = "[]" and now = 1000,
                     THEN conjunct1, THEN mp, OF names,
                     THEN conjunct1, THEN mp, OF unset]
  note escalate = lastConnectionFailure_guard [where ex = refused and w = staleWorker and topo = "[]" and now = 300001
                      and since = 0, THEN conjunct1, THEN mp, OF names,
                      THEN conjunct2, THEN conjunct1, THEN mp, OF stale]
  note cleared = lastConnectionFailure_guard [where w = staleWorker and env = acceptedStream and ?w1.0 = ?w1
                     and cs = "statusFrame ''Accepted''" and rest = "[]",
                     THEN conjunct2, THEN conjunct2, THEN mp]
  have "lastConnectionFailure (snd (processSubscription staleWorker acceptedStream)) = None"
    using cleared live(1) conn' conn(2,3) env(2) frame quiet by blast
  then show ?thesis
    using names unset set_now stale escalate live(1) conn(1) env(2) by blast
qed

subsection \<open>The current node tag\<close>

text \<open>
  The claim C6 as it is stated fails in both directions: a handshake with node A
  completes and the tag is still null; and a redirect to node B sets the tag to \<open>B\<close>
  before any handshake with B, here before any handshake at all.
\<close>

theorem currentNodeTag_null_after_handshake:
  "fst (connectToServer exampleWorker (goodConnect nodeA)) = Resolved ()
   \<and> clusterTag nodeA = ''A''
   \<and> currentNodeTag (snd (connectToServer exampleWorker (goodConnect nodeA))) = None
   \<and> currentNodeTag exampleWorker = None
   \<and> currentNodeTag (snd (shouldTryToReconnect [nodeA, nodeB] 1000 exampleWorker (redirectTo ''B'')))
       = Some ''B''"
  by (simp add: connectToServer_def goodConnect_def Let_def sendOptions_def ensureParser_def
      exampleWorker_def nodeA_def nodeB_def currentNodeTag_def shouldTryToReconnect_def
      assertLastConnectionFailure_def redirectTo_def withAppropriateNode_def getError_def)

lemma connectToServer_redirectNode:
  "redirectNode (snd (connectToServer w env)) =
     (case ce_tcpInfo env of Rejected err \<Rightarrow> None | _ \<Rightarrow> redirectNode w)"
  by (auto simp: connectToServer_def Let_def dispose_keeps ensureParser_def sendOptions_def
      split: promise.splits prod.splits)

text \<open>
  C6, amended. \<^verbatim>\<open>currentNodeTag\<close> is the cluster tag of the redirect node. It is null
  for a new worker; a connection attempt leaves it as it is, completed handshake
  included, except that a failed request for the TCP info makes it null; a
  SubscriptionDoesNotBelongToNodeException naming a node found in the local topology
  sets it to that node's tag (when the erroneous-window guard has not run out), and every
  other classification leaves it as it is.
\<close>

theorem currentNodeTag_follows_redirectNode:
  "(newWorker opts db = Inr w0 \<longrightarrow> currentNodeTag w0 = None)
   \<and> ((\<forall>err. ce_tcpInfo env \<noteq> Rejected err) \<longrightarrow>
        currentNodeTag (snd (connectToServer w env)) = currentNodeTag w)
   \<and> (ce_tcpInfo env = Rejected err \<longrightarrow> currentNodeTag (snd (connectToServer w env)) = None)
   \<and> (err_name ex = ''SubscriptionDoesNotBelongToNodeException''
        \<and> \<not> erroneousPeriodExceeded now w
        \<and> appropriateNode ex = Some tag \<and> tag \<noteq> []
        \<and> find (\<lambda>x. clusterTag x = tag) topo = Some node \<longrightarrow>
        shouldTryToReconnect topo now w ex
          = (Inr True, w\<lparr>lastConnectionFailure :=
                           Some (case lastConnectionFailure w of None \<Rightarrow> now | Some since \<Rightarrow> since),
                         redirectNode := Some node\<rparr>)
        \<and> currentNodeTag (snd (shouldTryToReconnect topo now w ex)) = Some tag)
   \<and> (err_name ex \<noteq> ''SubscriptionDoesNotBelongToNodeException''
        \<or> redirectTargetUnknown topo ex \<or> erroneousPeriodExceeded now w
        \<or> appropriateNode ex = None \<or> appropriateNode ex = Some [] \<longrightarrow>
        currentNodeTag (snd (shouldTryToReconnect topo now w ex)) = currentNodeTag w)"
proof (intro conjI impI)
  assume "newWorker opts db = Inr w0"
  then show "currentNodeTag w0 = None"
    by (auto simp: newWorker_def currentNodeTag_def split: if_splits)
next
  assume "\<forall>err. ce_tcpInfo env \<noteq> Rejected err"
  then show "currentNodeTag (snd (connectToServer w env)) = currentNodeTag w"
    by (simp add: currentNodeTag_def connectToServer_redirectNode split: promise.splits)
next
  assume "ce_tcpInfo env = Rejected err"
  then show "currentNodeTag (snd (connectToServer w env)) = None"
    by (simp add: currentNodeTag_def connectToServer_redirectNode)
next
  assume a: "err_name ex = ''SubscriptionDoesNotBelongToNodeException''
        \<and> \<not> erroneousPeriodExceeded now w
        \<and> appropriateNode ex = Some tag \<and> tag \<noteq> []
        \<and> find (\<lambda>x. clusterTag x = tag) topo = Some node"
  then show r: "shouldTryToReconnect topo now w ex
          = (Inr True, w\<lparr>lastConnectionFailure :=
                           Some (case lastConnectionFailure w of None \<Rightarrow> now | Some since \<Rightarrow> since),
                         redirectNode := Some node\<rparr>)"
    by (simp add: shouldTryToReconnect_def assertLastConnectionFailure_cases)
  from a have "clusterTag node = tag" by (auto simp: find_Some_iff)
  with r show "currentNodeTag (snd (shouldTryToReconnect topo now w ex)) = Some tag"
    by (simp add: currentNodeTag_def)
next
  assume "err_name ex \<noteq> ''SubscriptionDoesNotBelongToNodeException''
        \<or> redirectTargetUnknown topo ex \<or> erroneousPeriodExceeded now w
        \<or> appropriateNode ex = None \<or> appropriateNode ex = Some []"
  then show "currentNodeTag (snd (shouldTryToReconnect topo now w ex)) = currentNodeTag w"
    by (auto simp: shouldTryToReconnect_def assertLastConnectionFailure_cases currentNodeTag_def
        redirectTargetUnknown_def split: option.splits)
qed

theorem currentNodeTag_follows_redirectNode_witness:
  "newWorker exampleOptions ''shop'' = Inr exampleWorker
   \<and> currentNodeTag exampleWorker = None
   \<and> err_name (redirectTo ''B'') = ''SubscriptionDoesNotBelongToNodeException''
   \<and> \<not> erroneousPeriodExceeded 1000 exampleWorker
   \<and> appropriateNode (redirectTo ''B'') = Some ''B''
   \<and> find (\<lambda>x. clusterTag x = ''B'') [nodeA, nodeB] = Some nodeB
   \<and> currentNodeTag (snd (shouldTryToReconnect [nodeA, nodeB] 1000 exampleWorker (redirectTo ''B'')))
       = Some ''B''
   \<and> ce_tcpInfo (failingConnect refused) = Rejected refused
   \<and> currentNodeTag (snd (connectToServer
        (snd (shouldTryToReconnect [nodeA, nodeB] 1000 exampleWorker (redirectTo ''B'')))
        (failingConnect refused))) = None"
proof -
  have new: "newWorker exampleOptions ''shop'' = Inr exampleWorker"
    by (simp add: newWorker_def exampleOptions_def exampleWorker_def)
  have redirect: "err_name (redirectTo ''B'') = ''SubscriptionDoesNotBelongToNodeException''
        \<and> \<not> erroneousPeriodExceeded 1000 exampleWorker
        \<and> appropriateNode (redirectTo ''B'') = Some ''B'' \<and> ''B'' \<noteq> []
        \<and> find (\<lambda>x. clusterTag x = ''B'') [nodeA, nodeB] = Some nodeB"
    by (simp add: redirectTo_def withAppropriateNode_def getError_def erroneousPeriodExceeded_def
        exampleWorker_def nodeA_def nodeB_def)
  have failing: "ce_tcpInfo (failingConnect refused) = Rejected refused"
    by (simp add: failingConnect_def)
  note initial = currentNodeTag_follows_redirectNode [where opts = exampleOptions and db = "''shop''" and ?w0.0 = exampleWorker,
                     THEN conjunct1, THEN mp, OF new]
  note redirected = currentNodeTag_follows_redirectNode [where ex = "redirectTo ''B''" and now = 1000 and w = exampleWorker
                          and tag = "''B''" and topo = "[nodeA, nodeB]" and node = nodeB,
                        THEN conjunct2, THEN conjunct2, THEN conjunct2, THEN conjunct1, THEN mp,
                        OF redirect, THEN conjunct2]
  note forgotten = currentNodeTag_follows_redirectNode [where env = "failingConnect refused" and err = refused,
                       THEN conjunct2, THEN conjunct2, THEN conjunct1, THEN mp, OF failing]
  show ?thesis
    using new initial redirect redirected failing forgotten by blast
qed

subsection \<open>The subscription task\<close>

lemma readNextObject_frame:
  "emitter (fst (snd (readNextObject w es))) = emitter w"
  "emitter (fst (snd (awaitStream w es))) = emitter w"
  by (induction w es and w es rule: readNextObject_awaitStream.induct)
     (auto simp: dispose_keeps split: list.splits stream_event.splits)

lemma afterAwait_frame: "emitter (fst (afterAwait w es)) = emitter w"
  by (induction w es rule: afterAwait.induct) (simp_all add: dispose_keeps)

lemma connectToServer_frame: "emitter (snd (connectToServer w env)) = emitter w"
  by (auto simp: connectToServer_def Let_def dispose_keeps ensureParser_def sendOptions_def
      split: promise.splits prod.splits)

lemma processConnected_frame: "emitter (snd (processConnected w env)) = emitter w"
proof -
  obtain r w1 es1 where r: "readNextObject w (pe_stream env) = (r, w1, es1)"
    by (cases "readNextObject w (pe_stream env)")
  obtain w2 es2 where a: "afterAwait w1 es1 = (w2, es2)" by (cases "afterAwait w1 es1")
  have "emitter w1 = emitter w" using readNextObject_frame(1) [of w "pe_stream env"] r by simp
  moreover have "emitter w2 = emitter w1" using afterAwait_frame [of w1 es1] a by simp
  ultimately show ?thesis
    using r a
    by (auto simp: processConnected_def Let_def dispose_keeps
        split: promise.splits option.splits sum.splits)
qed

lemma processSubscription_frame: "emitter (snd (processSubscription w env)) = emitter w"
proof -
  have c: "emitter (snd (connectToServer w (pe_connect env))) = emitter w"
    by (rule connectToServer_frame)
  have p: "emitter (snd (processConnected w1 env)) = emitter w1" for w1
    by (rule processConnected_frame)
  show ?thesis
  proof (cases "connectToServer w (pe_connect env)")
    case (Pair r w1)
    with c have w1: "emitter w1 = emitter w" by simp
    show ?thesis
    proof (cases "processConnected w1 env")
      case inner: (Pair r2 w2)
      with p [of w1] w1 have "emitter w2 = emitter w" by simp
      then show ?thesis
        using Pair inner w1
        by (auto simp: processSubscription_def outerCatch_def Let_def closeTcpClient_def
            split: promise.splits)
    qed
  qed
qed

lemma outerCatch_rejects_undisposed:
  "outerCatch r = (Rejected err, w1) \<Longrightarrow> \<not> disposed w1"
  by (cases r) (auto simp: outerCatch_def split: promise.splits if_splits)

lemma processSubscription_rejects_undisposed:
  assumes "processSubscription w env = (Rejected err, w1)"
  shows "\<not> disposed w1"
proof (cases "processingCancelled w")
  case True
  with assms show ?thesis
    by (auto simp: processSubscription_def dest: outerCatch_rejects_undisposed)
next
  case False
  obtain r w' where c: "connectToServer w (pe_connect env) = (r, w')"
    by (cases "connectToServer w (pe_connect env)")
  obtain r2 w2 where p: "processConnected w' env = (r2, w2)"
    by (cases "processConnected w' env")
  show ?thesis
    using assms False c p
    by (cases r; cases r2)
       (auto simp: processSubscription_def dest: outerCatch_rejects_undisposed)
qed

lemma dispose_cancelledByDispose: "cancelledByDispose (dispose w)"
  by (simp add: cancelledByDispose_def dispose_def closeTcpClient_def)

lemma readNextObject_cancelledByDispose:
  "cancelledByDispose w \<Longrightarrow> cancelledByDispose (fst (snd (readNextObject w es)))"
  "cancelledByDispose w \<Longrightarrow> cancelledByDispose (fst (snd (awaitStream w es)))"
  by (induction w es and w es rule: readNextObject_awaitStream.induct)
     (auto simp: dispose_cancelledByDispose split: list.splits stream_event.splits)

lemma afterAwait_cancelledByDispose:
  "cancelledByDispose w \<Longrightarrow> cancelledByDispose (fst (afterAwait w es))"
  by (induction w es rule: afterAwait.induct) (simp_all add: dispose_cancelledByDispose)

lemma flags_cancelledByDispose:
  "processingCancelled w' = processingCancelled w \<Longrightarrow> disposed w' = disposed w \<Longrightarrow>
   cancelledByDispose w \<Longrightarrow> cancelledByDispose w'"
  by (simp add: cancelledByDispose_def)

lemma connectToServer_cancelledByDispose:
  assumes "cancelledByDispose w"
  shows "cancelledByDispose (snd (connectToServer w env))"
proof -
  let ?w = "if ce_disposeCalled env then dispose w else w"
  have start: "cancelledByDispose ?w"
    using assms by (simp add: dispose_cancelledByDispose)
  have "processingCancelled (snd (connectToServer w env)) = processingCancelled ?w"
    "disposed (snd (connectToServer w env)) = disposed ?w"
    by (auto simp: connectToServer_def Let_def ensureParser_def sendOptions_def
        split: promise.splits prod.splits)
  then show ?thesis using start by (rule flags_cancelledByDispose)
qed

lemma processConnected_cancelledByDispose:
  assumes "cancelledByDispose w"
  shows "cancelledByDispose (snd (processConnected w env))"
proof -
  obtain r w1 es1 where r: "readNextObject w (pe_stream env) = (r, w1, es1)"
    by (cases "readNextObject w (pe_stream env)")
  obtain w2 es2 where a: "afterAwait w1 es1 = (w2, es2)" by (cases "afterAwait w1 es1")
  have w1: "cancelledByDispose w1"
    using readNextObject_cancelledByDispose(1) [OF assms, of "pe_stream env"] r by simp
  then have w2: "cancelledByDispose w2"
    using afterAwait_cancelledByDispose [of w1 es1] a by simp
  then have w3: "cancelledByDispose (w2\<lparr>lastConnectionFailure := None\<rparr>)"
    by (simp add: cancelledByDispose_def)
  show ?thesis
    using assms r a w1 w2 w3
    by (auto simp: processConnected_def Let_def dispose_cancelledByDispose
        split: promise.splits option.splits sum.splits)
qed

lemma outerCatch_cancelledByDispose:
  "cancelledByDispose w \<Longrightarrow> cancelledByDispose (snd (outerCatch (r, w)))"
  by (auto simp: outerCatch_def split: promise.splits)

lemma processSubscription_cancelledByDispose:
  assumes "cancelledByDispose w"
  shows "cancelledByDispose (snd (processSubscription w env))"
proof (cases "processingCancelled w")
  case True
  then show ?thesis
    using outerCatch_cancelledByDispose [OF assms, of "Rejected operationCancelled"]
    by (simp add: processSubscription_def)
next
  case False
  obtain r w1 where c: "connectToServer w (pe_connect env) = (r, w1)"
    by (cases "connectToServer w (pe_connect env)")
  have w1: "cancelledByDispose w1"
    using connectToServer_cancelledByDispose [OF assms, of "pe_connect env"] c by simp
  obtain r2 w2 where p: "processConnected w1 env = (r2, w2)"
    by (cases "processConnected w1 env")
  have w2: "cancelledByDispose w2"
    using processConnected_cancelledByDispose [OF w1, of env] p by simp
  then have closed: "cancelledByDispose ((closeTcpClient w2)\<lparr>parserEnded := Some True\<rparr>)"
    by (simp add: cancelledByDispose_def closeTcpClient_def)
  show ?thesis
    using False c p w1 w2
      outerCatch_cancelledByDispose [OF w1, of r]
      outerCatch_cancelledByDispose [OF closed, of r2]
    by (cases r; cases r2) (simp_all add: processSubscription_def)
qed

lemma shouldTryToReconnect_outcomes:
  "shouldTryToReconnect topo now w ex = (c, w2) \<Longrightarrow>
   (case c of
      Inl thrown \<Rightarrow> endsTheTask thrown \<and> processingCancelled w2 = processingCancelled w
    | Inr True \<Rightarrow> processingCancelled w2 = processingCancelled w
    | Inr False \<Rightarrow> endsTheTask ex)
   \<and> disposed w2 = disposed w"
  by (auto simp: shouldTryToReconnect_def assertLastConnectionFailure_cases endsTheTask_def
      getError_def fatalErrorNames_def split: option.splits if_splits)

lemma closeTcpClient_keeps: "emitter (closeTcpClient w) = emitter w"
  by (simp add: closeTcpClient_def)

text \<open>
  What the loop of \<^verbatim>\<open>_runSubscriptionAsync\<close> keeps: the listeners stay as they are, the
  loop itself only delays and emits \<^verbatim>\<open>connectionRetry\<close>, and it throws only while the
  worker is not disposed, and only an error that ends the task.
\<close>

lemma runSubscriptionAsync_invariant:
  "cancelledByDispose w \<Longrightarrow> runSubscriptionAsync w ts acts = (p, acts', w') \<Longrightarrow>
   emitter w' = emitter w
   \<and> (\<exists>extra. acts' = acts @ extra \<and> list_all retryAction extra)
   \<and> (\<forall>err. p = Rejected err \<longrightarrow> endsTheTask err \<and> \<not> disposed w')"
proof (induction ts arbitrary: w acts p acts' w')
  case Nil
  then show ?case by (auto split: if_splits)
next
  case (Cons t ts)
  note run = Cons.prems(2)
  show ?case
  proof (cases "processingCancelled w")
    case True
    with run show ?thesis by auto
  next
    case False
    obtain r w1 where ps: "processSubscription (closeTcpClient w) (tn_process t) = (r, w1)"
      by (cases "processSubscription (closeTcpClient w) (tn_process t)")
    have e1: "emitter w1 = emitter w"
      using processSubscription_frame [of "closeTcpClient w" "tn_process t"] ps
      by (simp add: closeTcpClient_keeps)
    have "cancelledByDispose (closeTcpClient w)"
      using Cons.prems(1) by (simp add: cancelledByDispose_def closeTcpClient_def)
    then have c1: "cancelledByDispose w1"
      using processSubscription_cancelledByDispose [of "closeTcpClient w" "tn_process t"] ps
      by simp
    show ?thesis
    proof (cases r)
      case Pending
      with run False ps e1 show ?thesis by auto
    next
      case (Resolved u)
      with run False ps have "runSubscriptionAsync w1 ts acts = (p, acts', w')" by simp
      from Cons.IH [OF c1 this] e1 show ?thesis by simp
    next
      case (Rejected error)
      with ps have nd: "\<not> disposed w1" by (auto dest: processSubscription_rejects_undisposed)
      with c1 have live: "\<not> processingCancelled w1" by (auto simp: cancelledByDispose_def)
      obtain c w2 where sh: "shouldTryToReconnect (tn_topology t) (tn_now t) w1 error = (c, w2)"
        by (cases "shouldTryToReconnect (tn_topology t) (tn_now t) w1 error")
      have k: "emitter w2 = emitter w1"
        using shouldTryToReconnect_keeps [of "tn_topology t" "tn_now t" w1 error] sh by simp
      note out = shouldTryToReconnect_outcomes [OF sh]
      show ?thesis
      proof (cases c)
        case (Inl thrown)
        with run False ps Rejected live sh k nd e1 out show ?thesis by auto
      next
        case (Inr retry)
        show ?thesis
        proof (cases retry)
          case no: False
          with run False ps Rejected live sh k nd e1 Inr out show ?thesis by auto
        next
          case True
          let ?w3 = "if tn_disposeDuringDelay t then dispose w2 else w2"
          have e3: "emitter ?w3 = emitter w" using k e1 by (simp add: dispose_keeps)
          have "cancelledByDispose w2"
            using out Inr True c1 by (simp add: cancelledByDispose_def)
          then have c3: "cancelledByDispose ?w3" by (simp add: dispose_cancelledByDispose)
          have "runSubscriptionAsync ?w3 ts
                  (acts @ [Delay (timeToWaitBeforeConnectionRetry (options ?w3)),
                           Emit EvConnectionRetry (ErrorArg error)]) = (p, acts', w')"
            using run False ps Rejected live sh Inr True
            by (simp add: emit_def Let_def)
          from Cons.IH [OF c3 this] e3 show ?thesis
            by (auto simp: retryAction_def)
        qed
      qed
    qed
  qed
qed

text \<open>
  The callback of the parser pipeline passes on every pipeline error while a listener
  is registered and the socket is not destroyed, whatever the kind of the error.
\<close>

lemma pipelineCallback_emits_every_error:
  "emitter w EvError \<noteq> [] \<Longrightarrow> tcpClient w = Some s \<Longrightarrow> \<not> destroyed s \<Longrightarrow>
   pipelineCallback w (Some e) = Inr [Emit EvError (ErrorArg e)]"
  by (simp add: pipelineCallback_def emit_def)

text \<open>
  The claim C4 as it is stated fails: the callback of the parser pipeline delivers a
  ConnectionException to the \<^verbatim>\<open>'error'\<close> event (a listener is registered, the socket
  is not destroyed), an error that the reconnect controller classifies as retryable.
\<close>

theorem pipelineCallback_emits_retryable_error:
  "pipelineCallback listeningWorker (Some refused) = Inr [Emit EvError (ErrorArg refused)]
   \<and> fst (shouldTryToReconnect [] 1000 listeningWorker refused) = Inr True
   \<and> err_name refused \<notin> set fatalErrorNames"
  by (simp add: pipelineCallback_def listeningWorker_def on_def connectedWorker_def
      ensureParser_def exampleWorker_def newSocket_def emit_def emitter_on_def Let_def
      shouldTryToReconnect_def assertLastConnectionFailure_def refused_def getError_def
      fatalErrorNames_def)

text \<open>
  With no \<^verbatim>\<open>'error'\<close> listener the emitter throws the error it is asked to emit, the
  \<^verbatim>\<open>then\<close> handler is skipped and \<^verbatim>\<open>'end'\<close> is not emitted: the task promise rejects.
\<close>

lemma subscriptionTaskRun_without_error_listener:
  "emitter w EvError = [] \<Longrightarrow> cancelledByDispose w \<Longrightarrow>
   runSubscriptionAsync w ts [] = (Rejected err, acts, w') \<Longrightarrow>
   subscriptionTaskRun w ts = (Rejected err, acts, w')"
  using runSubscriptionAsync_invariant [of w ts "[]" "Rejected err" acts w']
  by (simp add: subscriptionTaskRun_def emit_def)

text \<open>
  C4, amended. An \<^verbatim>\<open>'error'\<close> listener is registered and processing has not been
  cancelled but by \<^verbatim>\<open>dispose()\<close>. Whatever the loop of \<^verbatim>\<open>_runSubscriptionAsync\<close> does
  before it ends is a retry: a delay or an emission of \<^verbatim>\<open>connectionRetry\<close>, never of
  \<^verbatim>\<open>'error'\<close>. While the loop runs the task emits nothing else. When the loop ends
  normally the task emits \<^verbatim>\<open>'end'\<close> and nothing else; when it ends by throwing, the
  task emits \<^verbatim>\<open>'error'\<close> with the error thrown and then \<^verbatim>\<open>'end'\<close>. So \<^verbatim>\<open>'end'\<close> is
  emitted exactly once, last, when the task terminates, and \<^verbatim>\<open>'error'\<close> at most once,
  right before it. The error thrown is of a fatal kind or the controller's failed
  redirect, and the worker is not disposed then: if the worker is disposed when the loop
  ends, no \<^verbatim>\<open>'error'\<close> precedes \<^verbatim>\<open>'end'\<close>.
\<close>

theorem subscriptionTask_events:
  assumes "emitter w EvError \<noteq> []" and "cancelledByDispose w"
  shows "case runSubscriptionAsync w ts [] of
           (p, acts, w') \<Rightarrow>
             list_all retryAction acts
             \<and> subscriptionTaskRun w ts =
                 (case p of
                    Pending \<Rightarrow> (Pending, acts, w')
                  | Resolved u \<Rightarrow> (Resolved (), acts @ [Emit EvEnd NoArg], w')
                  | Rejected err \<Rightarrow>
                      (Resolved (),
                       acts @ [Emit EvError (ErrorArg err), Emit EvEnd NoArg], w'))
             \<and> (\<forall>err. p = Rejected err \<longrightarrow> endsTheTask err \<and> \<not> disposed w')"
proof -
  obtain p acts w' where run: "runSubscriptionAsync w ts [] = (p, acts, w')"
    by (cases "runSubscriptionAsync w ts []") auto
  from runSubscriptionAsync_invariant [OF assms(2) run]
  have inv: "emitter w' = emitter w" "list_all retryAction acts"
    "\<forall>err. p = Rejected err \<longrightarrow> endsTheTask err \<and> \<not> disposed w'"
    by auto
  have "subscriptionTaskRun w ts =
          (case p of
             Pending \<Rightarrow> (Pending, acts, w')
           | Resolved u \<Rightarrow> (Resolved (), acts @ [Emit EvEnd NoArg], w')
           | Rejected err \<Rightarrow>
               (Resolved (), acts @ [Emit EvError (ErrorArg err), Emit EvEnd NoArg], w'))"
    using run inv(1) assms(1)
    by (simp add: subscriptionTaskRun_def emit_def split: promise.splits)
  with run inv show ?thesis by auto
qed

theorem subscriptionTask_events_witness:
  "emitter listeningWorker EvError \<noteq> []
   \<and> cancelledByDispose listeningWorker
   \<and> fst (snd (subscriptionTaskRun listeningWorker
        [failingTurn refused [] 1000, failingTurn unauthorized [] 2000]))
       = [Delay 5000, Emit EvConnectionRetry (ErrorArg refused),
          Emit EvError (ErrorArg unauthorized), Emit EvEnd NoArg]
   \<and> fst (snd (subscriptionTaskRun listeningWorker
        [(failingTurn refused [] 1000)\<lparr>tn_disposeDuringDelay := True\<rparr>,
         failingTurn unauthorized [] 2000]))
       = [Delay 5000, Emit EvConnectionRetry (ErrorArg refused), Emit EvEnd NoArg]"
proof -
  have listener: "emitter listeningWorker EvError \<noteq> []"
    by (simp add: listeningWorker_def on_def emitter_on_def Let_def)
  have fresh: "cancelledByDispose listeningWorker"
    by (simp add: cancelledByDispose_def listeningWorker_def on_def connectedWorker_def
        ensureParser_def exampleWorker_def Let_def)
  have fatal: "\<exists>w'. runSubscriptionAsync listeningWorker
        [failingTurn refused [] 1000, failingTurn unauthorized [] 2000] []
      = (Rejected unauthorized, [Delay 5000, Emit EvConnectionRetry (ErrorArg refused)], w')"
    by (simp add: listeningWorker_def on_def connectedWorker_def ensureParser_def
        exampleWorker_def exampleOptions_def newSocket_def emitter_on_def Let_def
        processSubscription_def outerCatch_def failingTurn_def failingConnect_def
        connectToServer_def shouldTryToReconnect_def assertLastConnectionFailure_def
        refused_def unauthorized_def getError_def closeTcpClient_def socket_end_def
        fatalErrorNames_def emit_def)
  have disposedRun: "\<exists>w'. runSubscriptionAsync listeningWorker
        [(failingTurn refused [] 1000)\<lparr>tn_disposeDuringDelay := True\<rparr>,
         failingTurn unauthorized [] 2000] []
      = (Resolved (), [Delay 5000, Emit EvConnectionRetry (ErrorArg refused)], w')"
    by (simp add: listeningWorker_def on_def connectedWorker_def ensureParser_def
        exampleWorker_def exampleOptions_def newSocket_def emitter_on_def Let_def
        processSubscription_def outerCatch_def failingTurn_def failingConnect_def
        connectToServer_def shouldTryToReconnect_def assertLastConnectionFailure_def
        refused_def unauthorized_def getError_def closeTcpClient_def socket_end_def
        fatalErrorNames_def emit_def dispose_def)
  from fatal obtain w1 where r1: "runSubscriptionAsync listeningWorker
        [failingTurn refused [] 1000, failingTurn unauthorized [] 2000] []
      = (Rejected unauthorized, [Delay 5000, Emit EvConnectionRetry (ErrorArg refused)], w1)"
    by blast
  from disposedRun obtain w2 where r2: "runSubscriptionAsync listeningWorker
        [(failingTurn refused [] 1000)\<lparr>tn_disposeDuringDelay := True\<rparr>,
         failingTurn unauthorized [] 2000] []
      = (Resolved (), [Delay 5000, Emit EvConnectionRetry (ErrorArg refused)], w2)"
    by blast
  have a: "fst (snd (subscriptionTaskRun listeningWorker
        [failingTurn refused [] 1000, failingTurn unauthorized [] 2000]))
       = [Delay 5000, Emit EvConnectionRetry (ErrorArg refused),
          Emit EvError (ErrorArg unauthorized), Emit EvEnd NoArg]"
    using subscriptionTask_events [OF listener fresh, of "[failingTurn refused [] 1000, failingTurn unauthorized [] 2000]",
              unfolded r1]
    by simp
  have b: "fst (snd (subscriptionTaskRun listeningWorker
        [(failingTurn refused [] 1000)\<lparr>tn_disposeDuringDelay := True\<rparr>,
         failingTurn unauthorized [] 2000]))
       = [Delay 5000, Emit EvConnectionRetry (ErrorArg refused), Emit EvEnd NoArg]"
    using subscriptionTask_events [OF listener fresh,
              of "[(failingTurn refused [] 1000)\<lparr>tn_disposeDuringDelay := True\<rparr>,
                   failingTurn unauthorized [] 2000]",
              unfolded r2]
    by simp
  show ?thesis using listener fresh a b by blast
qed

subsection \<open>Writing frames\<close>

text \<open>
  C9. \<^verbatim>\<open>_sendAck\<close> rejects with the write error when the socket write reports one (and
  resolves when it reports none), whereas \<^verbatim>\<open>_sendOptions\<close> and \<^verbatim>\<open>_sendDropMessage\<close>
  resolve whatever the outcome of their socket write: a failed options or drop write,
  after which the frame is not among the frames sent, is not surfaced to the caller.
\<close>

theorem sendAck_surfaces_write_error_others_do_not:
  "fst (sendAck cv s (Some err)) = Rejected err
   \<and> fst (sendAck cv s None) = Resolved ()
   \<and> fst (sendOptions s opts outcome) = Resolved ()
   \<and> sent (snd (sendOptions s opts (Some err))) = sent s
   \<and> (\<exists>w'. sendDropMessage v (w\<lparr>tcpClient := Some s\<rparr>) (Some theirs) outcome
              = Inr (Resolved (), w'))
   \<and> (\<exists>w'. sendDropMessage v (w\<lparr>tcpClient := Some s\<rparr>) (Some theirs) (Some err)
              = Inr (Resolved (), w') \<and> map_option sent (tcpClient w') = Some (sent s))"
  by (simp add: sendAck_def sendOptions_def sendDropMessage_def socket_write_def)

subsection \<open>Removing a listener\<close>

lemma off_removes_handler:
  "emitter (off w ev h) ev = rev (remove1 h (rev (emitter w ev)))"
  by (simp add: off_def emitter_removeListener_def)

text \<open>
  C10 (the code departs from it). \<^verbatim>\<open>removeListener(event, handler)\<close> never reaches the
  emitter: whatever the stack depth, the call ends in RangeError and returns no worker,
  so no handler is removed, unlike \<^verbatim>\<open>off\<close>.
\<close>

theorem removeListener_overflows_stack:
  "removeListener frames w ev h = Inl rangeError"
  by (induction frames) simp_all

end
